theory Spec2Isabelle
  imports Complex_Main
begin

section \<open>Data model of src/index.ts\<close>

text \<open>
  A JavaScript \<open>number\<close> that reaches the checks below is a finite double (chip counts of
  the table, numbers parsed from a JSON response). Every finite double is a rational and
  the comparisons \<open><\<close>, \<open>\<le>\<close> on doubles agree with those on rationals, so \<open>number\<close>
  is \<open>rat\<close>. Seat indices and the hand counter are natural numbers.
\<close>

type_synonym number = rat

text \<open>\<open>type Action = "fold" | "check" | "call" | "bet" | "raise"\<close>\<close>

datatype Action = Fold | Check | Call | Bet | Raise

fun action_name :: "Action \<Rightarrow> string" where
  "action_name Fold = ''fold''"
| "action_name Check = ''check''"
| "action_name Call = ''call''"
| "action_name Bet = ''bet''"
| "action_name Raise = ''raise''"

record ChipRange =
  cr_min :: number
  cr_max :: number

text \<open>\<open>interface LegalActions { actions: Action[]; chipRange?: { min; max } }\<close>\<close>

record LegalActions =
  actions :: "Action list"
  chipRange :: "ChipRange option"

text \<open>\<open>interface TakenAction { action: Action; betSize?: number }\<close>\<close>

record TakenAction =
  action :: Action
  betSize :: "number option"

record Pot =
  pot_size :: number
  eligiblePlayers :: "nat list"

record Seat =
  totalChips :: number
  stack :: number
  seat_betSize :: number

record Card =
  rank :: string
  suit :: string

text \<open>
  Values of type \<open>any\<close> that arrive as parsed JSON (the \<open>input\<close> of a tool-use block, the
  winners list that is only serialised into the journal). An object is its list of
  key/value pairs; a key is looked up with \<open>map_of\<close>.
\<close>

datatype json =
    JNull
  | JBool bool
  | JNum number
  | JStr string
  | JArr "json list"
  | JObj "(string \<times> json) list"

subsection \<open>Errors\<close>

text \<open>
  The issues a zod schema reports, each with the key it was found at (the empty string
  for the parsed value itself).
\<close>

datatype ZodIssue =
    InvalidType string
  | InvalidEnumValue string
  | TooSmall string
  | TooBig string

text \<open>
  Everything the program can throw:
  \<^item> \<open>TooManyPlayers n\<close>: \<open>new Error(`Too many players (max n)`)\<close>, line 136;
  \<^item> \<open>TypeError\<close>: reading \<open>.name\<close> of \<open>undefined\<close> after an array read out of range
    (\<open>players[i]\<close> at lines 172, 201, 326, 335);
  \<^item> \<open>TransportError\<close>: the promise of \<open>anthropic.messages.create\<close> rejected, line 265;
  \<^item> \<open>NoToolUse\<close>: \<open>new Error("No tool use block found")\<close>, line 282;
  \<^item> \<open>ZodError\<close>: thrown by \<open>takenActionSchema.parse\<close>, lines 298 and 306.
\<close>

datatype error =
    TooManyPlayers nat
  | TypeError
  | TransportError string
  | NoToolUse
  | ZodError "ZodIssue list"

subsection \<open>The decision provider's protocol\<close>

text \<open>
  The tool offered to the model (lines 239-263): the enum of legal actions, and the
  \<open>betSize\<close> property with its minimum and maximum only when a chip range is offered.
\<close>

record Tool =
  tool_name :: string
  tool_enum :: "Action list"
  tool_betSize :: "ChipRange option"

record Request =
  req_model :: string
  req_system :: string
  req_tools :: "Tool list"
  req_prompt :: string

text \<open>
  \<open>interface ContentBlock { type: string; [key: string]: any }\<close>: the keys the program
  reads are \<open>type\<close>, \<open>name\<close> and \<open>input\<close>; the last two may be missing.
\<close>

record ContentBlock =
  cb_type :: string
  cb_name :: "string option"
  cb_input :: "json option"

text \<open>
  What awaiting \<open>anthropic.messages.create\<close> gives: a rejection, or a message with its
  content blocks.
\<close>

datatype Reply = Rejected string | Message "ContentBlock list"

text \<open>
  The remote model is not a function of its request (the call samples at temperature
  0.7), so the client is modelled as an oracle that is also given the number of requests
  made before this one: every sequence of replies is some oracle.
\<close>

type_synonym Anthropic = "nat \<Rightarrow> Request \<Rightarrow> Reply"

subsection \<open>Template data\<close>

record PlayerInfo =
  pi_name :: string
  pi_seatIndex :: nat

record PotData =
  pd_size :: number
  pd_eligiblePlayers :: "string list"

text \<open>
  One entry of \<open>game.playerStacks\<close>. The entry of an empty seat has no \<open>stack\<close> and no
  \<open>betSize\<close> key.
\<close>

record StackData =
  sd_name :: string
  sd_status :: string
  sd_totalChips :: number
  sd_stack :: "number option"
  sd_betSize :: "number option"

record CurrentHand =
  ch_holeCards :: "Card list option"
  ch_communityCards :: "Card list"
  ch_pots :: "PotData list"
  ch_legalActions :: LegalActions
  ch_round :: string

record TemplateData =
  td_player :: PlayerInfo
  td_currentHand :: CurrentHand
  td_playerStacks :: "StackData list"

text \<open>
  \<open>interface ModelPlayer\<close>. The compiled Handlebars template is a function from the
  template data to the prompt text.
\<close>

record PlayerConfig =
  cfg_name :: string
  cfg_model :: string

record ModelPlayer =
  name :: string
  index :: nat
  prompt :: string
  model :: string
  template :: "TemplateData \<Rightarrow> string"

subsection \<open>The table facade\<close>

text \<open>
  The poker-ts table is an external collaborator: the program only calls the methods
  declared in the facade's declaration file. Its state is a type parameter \<open>'t\<close>, its
  queries are functions of the state, and its commands return the new state. The seat
  count is fixed when the table is built. The methods of the table, the file reads of the
  loading loop and the rendering of a compiled template are taken to return: what they
  might throw is not part of this model, which has the errors the program's own code
  raises and those of the decision provider.
\<close>

record 't Poker =
  numSeats :: nat
  sitDown :: "nat \<Rightarrow> number \<Rightarrow> 't \<Rightarrow> 't"
  seats :: "'t \<Rightarrow> Seat option list"
  startHand :: "'t \<Rightarrow> 't"
  isHandInProgress :: "'t \<Rightarrow> bool"
  isBettingRoundInProgress :: "'t \<Rightarrow> bool"
  playerToAct :: "'t \<Rightarrow> nat"
  legalActions :: "'t \<Rightarrow> LegalActions"
  holeCards :: "'t \<Rightarrow> Card list option list"
  actionTaken :: "Action \<Rightarrow> number option \<Rightarrow> 't \<Rightarrow> 't"
  endBettingRound :: "'t \<Rightarrow> 't"
  pots :: "'t \<Rightarrow> Pot list"
  communityCards :: "'t \<Rightarrow> Card list"
  areBettingRoundsCompleted :: "'t \<Rightarrow> bool"
  showdown :: "'t \<Rightarrow> 't"
  winners :: "'t \<Rightarrow> json list"
  roundOfBetting :: "'t \<Rightarrow> string"

subsection \<open>Events, calls and the world\<close>

text \<open>The records \<open>logger\<close> appends to the game file, one constructor per event name.\<close>

datatype event =
    GameStart "Seat option list"
  | HandStart nat "Seat option list"
  | PlayerAction string "Card list option" Action "number option"
  | EndBettingRound "Pot list" "Card list"
  | Showdown "json list"
  | HandEnd "Seat option list"
  | GameEnd string

text \<open>The commands the program has sent to the table, in order.\<close>

datatype call =
    SitDown nat number
  | StartHand
  | ActionTaken Action "number option"
  | EndBettingRoundCall
  | ShowdownCall

text \<open>
  The state the program threads through \<open>main\<close>: the table, the journal written by
  \<open>logger\<close>, the errors printed by \<open>console.error\<close>, the commands sent to the table and the
  number of requests sent to the model. (What \<open>console.log\<close> prints is not modelled.)
\<close>

record 't world =
  table :: 't
  journal :: "event list"
  stderr :: "error list"
  calls :: "call list"
  requests :: nat

datatype outcome = Normal | Threw error | OutOfFuel

section \<open>The functions of src/index.ts\<close>

subsection \<open>Array reads\<close>

text \<open>\<open>xs[i]\<close>: \<open>None\<close> stands for \<open>undefined\<close>, the value of a read out of range.\<close>

definition lookup :: "'a list \<Rightarrow> nat \<Rightarrow> 'a option" where
  "lookup xs i = (if i < length xs then Some (xs ! i) else None)"

text \<open>
  \<open>table.holeCards()[i]\<close>: the entry is \<open>null\<close> for a seat without cards and the read is
  \<open>undefined\<close> out of range; both are \<open>None\<close> here.
\<close>

definition holeCardsAt :: "Card list option list \<Rightarrow> nat \<Rightarrow> Card list option" where
  "holeCardsAt hc i = (case lookup hc i of None \<Rightarrow> None | Some c \<Rightarrow> c)"

text \<open>\<open>Boolean(seat)\<close>: an object is truthy, \<open>null\<close> is falsy.\<close>

definition occupied :: "Seat option \<Rightarrow> bool" where
  "occupied s = (s \<noteq> None)"

text \<open>\<open>xs.findIndex(Boolean)\<close>, with \<open>None\<close> for the result \<open>-1\<close>.\<close>

fun findIndex :: "('a \<Rightarrow> bool) \<Rightarrow> 'a list \<Rightarrow> nat option" where
  "findIndex P [] = None"
| "findIndex P (x # xs) = (if P x then Some 0 else map_option Suc (findIndex P xs))"

subsection \<open>logger and the table commands\<close>

definition logger :: "event \<Rightarrow> 't world \<Rightarrow> 't world" where
  "logger ev w = w\<lparr>journal := journal w @ [ev]\<rparr>"

definition command :: "call \<Rightarrow> ('t \<Rightarrow> 't) \<Rightarrow> 't world \<Rightarrow> 't world" where
  "command c f w = w\<lparr>table := f (table w), calls := calls w @ [c]\<rparr>"

subsection \<open>createTemplateData (lines 323-362)\<close>

text \<open>
  A pot's eligible players are translated from seat indices to names;
  \<open>players[playerIndex].name\<close> throws when the index is not in the roster.
\<close>

definition potData :: "ModelPlayer list \<Rightarrow> Pot \<Rightarrow> error + PotData" where
  "potData players pot =
     (case those (map (\<lambda>playerIndex. map_option name (lookup players playerIndex))
                      (eligiblePlayers pot)) of
        None \<Rightarrow> Inl TypeError
      | Some names \<Rightarrow> Inr \<lparr>pd_size = pot_size pot, pd_eligiblePlayers = names\<rparr>)"

fun potsData :: "ModelPlayer list \<Rightarrow> Pot list \<Rightarrow> error + PotData list" where
  "potsData players [] = Inr []"
| "potsData players (pot # rest) =
     (case potData players pot of
        Inl e \<Rightarrow> Inl e
      | Inr d \<Rightarrow> (case potsData players rest of Inl e \<Rightarrow> Inl e | Inr ds \<Rightarrow> Inr (d # ds)))"

text \<open>
  \<open>seats.filter((_, i) => i < players.length).map((seat, seatIndex) => seat ? ... : ...)\<close>.
  The filter keeps the first \<open>players.length\<close> entries, so the index \<open>map\<close> passes is the
  seat's own and \<open>players[seatIndex]\<close> is in range.
\<close>

definition stackData :: "ModelPlayer list \<Rightarrow> nat \<times> Seat option \<Rightarrow> StackData" where
  "stackData players p =
     (case snd p of
        Some seat \<Rightarrow>
          \<lparr>sd_name = name (players ! fst p), sd_status = ''active'',
           sd_totalChips = totalChips seat, sd_stack = Some (stack seat),
           sd_betSize = Some (seat_betSize seat)\<rparr>
      | None \<Rightarrow>
          \<lparr>sd_name = name (players ! fst p), sd_status = ''eliminated'',
           sd_totalChips = 0, sd_stack = None, sd_betSize = None\<rparr>)"

definition playerStacks :: "ModelPlayer list \<Rightarrow> Seat option list \<Rightarrow> StackData list" where
  "playerStacks players ss = map (stackData players) (enumerate 0 (take (length players) ss))"

definition createTemplateData ::
  "'t Poker \<Rightarrow> ModelPlayer list \<Rightarrow> 't \<Rightarrow> ModelPlayer \<Rightarrow> error + TemplateData" where
  "createTemplateData G players t player =
     (case potsData players (pots G t) of
        Inl e \<Rightarrow> Inl e
      | Inr ps \<Rightarrow>
          Inr \<lparr>td_player = \<lparr>pi_name = name player, pi_seatIndex = index player\<rparr>,
               td_currentHand =
                 \<lparr>ch_holeCards = holeCardsAt (holeCards G t) (index player),
                  ch_communityCards = communityCards G t,
                  ch_pots = ps,
                  ch_legalActions = legalActions G t,
                  ch_round = roundOfBetting G t\<rparr>,
               td_playerStacks = playerStacks players (seats G t)\<rparr>)"

subsection \<open>callModel (lines 234-308)\<close>

definition actionTool :: "LegalActions \<Rightarrow> Tool" where
  "actionTool la =
     \<lparr>tool_name = ''take_action'', tool_enum = actions la, tool_betSize = chipRange la\<rparr>"

definition request :: "ModelPlayer \<Rightarrow> string \<Rightarrow> LegalActions \<Rightarrow> Request" where
  "request player hydrated la =
     \<lparr>req_model = model player,
      req_system = ''You are '' @ name player @
        '', an expert poker player making decisions in a Texas Hold'em game.'',
      req_tools = [actionTool la],
      req_prompt = hydrated\<rparr>"

text \<open>
  \<open>response.content.find(block => block.type === "tool_use" && block.name === "take_action")\<close>
\<close>

definition isTakeAction :: "ContentBlock \<Rightarrow> bool" where
  "isTakeAction block = (cb_type block = ''tool_use'' \<and> cb_name block = Some ''take_action'')"

text \<open>
  \<open>z.enum(legalActions.actions)\<close> on the value at key \<open>action\<close>: a missing key or a value
  that is not a string is an invalid type; a string that is none of the enum's values is
  an invalid enum value.
\<close>

fun zod_enum :: "Action list \<Rightarrow> json option \<Rightarrow> ZodIssue list + Action" where
  "zod_enum vs (Some (JStr s)) =
     (case find (\<lambda>a. action_name a = s) vs of
        Some a \<Rightarrow> Inr a
      | None \<Rightarrow> Inl [InvalidEnumValue ''action''])"
| "zod_enum vs _ = Inl [InvalidType ''action'']"

text \<open>
  \<open>z.number().min(lo).max(hi).optional()\<close> on the value at key \<open>betSize\<close>: a missing key
  passes as absent; a number is checked against both bounds (inclusive); anything else
  (also \<open>null\<close>) is an invalid type.
\<close>

fun zod_betSize :: "ChipRange \<Rightarrow> json option \<Rightarrow> ZodIssue list + number option" where
  "zod_betSize r None = Inr None"
| "zod_betSize r (Some (JNum x)) =
     (let issues = (if x < cr_min r then [TooSmall ''betSize''] else []) @
                   (if cr_max r < x then [TooBig ''betSize''] else [])
      in if issues = [] then Inr (Some x) else Inl issues)"
| "zod_betSize r (Some _) = Inl [InvalidType ''betSize'']"

definition issuesOf :: "ZodIssue list + 'a \<Rightarrow> ZodIssue list" where
  "issuesOf r = (case r of Inl is \<Rightarrow> is | Inr _ \<Rightarrow> [])"

text \<open>
  \<open>takenActionSchema.parse(toolUseBlock.input)\<close>, lines 286-307. With a chip range the
  schema is an object of \<open>action\<close> and the optional bounded \<open>betSize\<close>; without one it is an
  object of \<open>action\<close> alone, and zod strips every other key of the input. A zod object
  parses every key of its shape and throws one error with all the issues.
\<close>

fun takenActionSchema_parse :: "LegalActions \<Rightarrow> json option \<Rightarrow> error + TakenAction" where
  "takenActionSchema_parse la (Some (JObj kvs)) =
     (case chipRange la of
        Some r \<Rightarrow>
          (case (zod_enum (actions la) (map_of kvs ''action''),
                 zod_betSize r (map_of kvs ''betSize'')) of
             (Inr a, Inr b) \<Rightarrow> Inr \<lparr>action = a, betSize = b\<rparr>
           | (ra, rb) \<Rightarrow> Inl (ZodError (issuesOf ra @ issuesOf rb)))
      | None \<Rightarrow>
          (case zod_enum (actions la) (map_of kvs ''action'') of
             Inr a \<Rightarrow> Inr \<lparr>action = a, betSize = None\<rparr>
           | Inl is \<Rightarrow> Inl (ZodError is)))"
| "takenActionSchema_parse la _ = Inl (ZodError [InvalidType ''''])"

definition callModel ::
  "Anthropic \<Rightarrow> nat \<Rightarrow> ModelPlayer \<Rightarrow> string \<Rightarrow> LegalActions \<Rightarrow> error + TakenAction" where
  "callModel anthropic k player hydrated la =
     (case anthropic k (request player hydrated la) of
        Rejected msg \<Rightarrow> Inl (TransportError msg)
      | Message content \<Rightarrow>
          (case find isTakeAction content of
             None \<Rightarrow> Inl NoToolUse
           | Some toolUseBlock \<Rightarrow> takenActionSchema_parse la (cb_input toolUseBlock)))"

subsection \<open>getModelAction (lines 208-229)\<close>

text \<open>
  The template data is built and the prompt rendered before the \<open>try\<close>; everything
  \<open>callModel\<close> throws is caught, printed with \<open>console.error\<close>, and answered with
  \<open>{ action: "fold" }\<close>.
\<close>

definition getModelAction ::
  "'t Poker \<Rightarrow> Anthropic \<Rightarrow> ModelPlayer list \<Rightarrow> ModelPlayer \<Rightarrow> 't world \<Rightarrow>
     (error + TakenAction) \<times> 't world" where
  "getModelAction G anthropic players player w =
     (case createTemplateData G players (table w) player of
        Inl e \<Rightarrow> (Inl e, w)
      | Inr templateData \<Rightarrow>
          (let hydratedPrompt = template player templateData;
               w1 = w\<lparr>requests := Suc (requests w)\<rparr>
           in case callModel anthropic (requests w) player hydratedPrompt
                     (legalActions G (table w)) of
                Inr taken \<Rightarrow> (Inr taken, w1)
              | Inl err \<Rightarrow>
                  (Inr \<lparr>action = Fold, betSize = None\<rparr>, w1\<lparr>stderr := stderr w1 @ [err]\<rparr>)))"

subsection \<open>main (lines 101-203)\<close>

text \<open>
  One pass through the body of the betting-round loop, lines 163-178. The read
  \<open>players[seatIndex]\<close> may be \<open>undefined\<close>; \<open>getModelAction\<close> then throws at
  \<open>player.name\<close> (line 326) before anything else happens. The constant \<open>legalActions\<close> of
  line 166 is never read: \<open>getModelAction\<close> asks the table again.
\<close>

definition bettingTurn ::
  "'t Poker \<Rightarrow> Anthropic \<Rightarrow> ModelPlayer list \<Rightarrow> 't world \<Rightarrow> outcome \<times> 't world" where
  "bettingTurn G anthropic players w =
     (let seatIndex = playerToAct G (table w);
          cards = holeCardsAt (holeCards G (table w)) seatIndex
      in case lookup players seatIndex of
           None \<Rightarrow> (Threw TypeError, w)
         | Some player \<Rightarrow>
             (case getModelAction G anthropic players player w of
                (Inl e, w1) \<Rightarrow> (Threw e, w1)
              | (Inr taken, w1) \<Rightarrow>
                  (Normal,
                   command (ActionTaken (action taken) (betSize taken))
                     (actionTaken G (action taken) (betSize taken))
                     (logger (PlayerAction (name player) cards (action taken) (betSize taken))
                        w1))))"

text \<open>
  The loops may run forever (that is for the table to decide), so each takes fuel: one
  unit per test of its condition, and \<open>OutOfFuel\<close> when none is left.
  \<open>while (table.isBettingRoundInProgress())\<close>, lines 162-179:
\<close>

fun bettingRound ::
  "'t Poker \<Rightarrow> Anthropic \<Rightarrow> ModelPlayer list \<Rightarrow> nat \<Rightarrow> 't world \<Rightarrow> outcome \<times> 't world" where
  "bettingRound G anthropic players 0 w = (OutOfFuel, w)"
| "bettingRound G anthropic players (Suc n) w =
     (if isBettingRoundInProgress G (table w) then
        (case bettingTurn G anthropic players w of
           (Normal, w1) \<Rightarrow> bettingRound G anthropic players n w1
         | (out, w1) \<Rightarrow> (out, w1))
      else (Normal, w))"

text \<open>Lines 181-193: the end of a betting round, and the showdown after the last one.\<close>

definition settleRound :: "'t Poker \<Rightarrow> 't world \<Rightarrow> 't world" where
  "settleRound G w =
     (let w1 = command EndBettingRoundCall (endBettingRound G) w;
          w2 = logger (EndBettingRound (pots G (table w1)) (communityCards G (table w1))) w1
      in if areBettingRoundsCompleted G (table w2) then
           (let w3 = command ShowdownCall (showdown G) w2
            in logger (Showdown (winners G (table w3))) w3)
         else w2)"

text \<open>\<open>while (table.isHandInProgress())\<close>, lines 160-194:\<close>

fun playHand ::
  "'t Poker \<Rightarrow> Anthropic \<Rightarrow> ModelPlayer list \<Rightarrow> nat \<Rightarrow> 't world \<Rightarrow> outcome \<times> 't world" where
  "playHand G anthropic players 0 w = (OutOfFuel, w)"
| "playHand G anthropic players (Suc n) w =
     (if isHandInProgress G (table w) then
        (case bettingRound G anthropic players n w of
           (Normal, w1) \<Rightarrow> playHand G anthropic players n (settleRound G w1)
         | (out, w1) \<Rightarrow> (out, w1))
      else (Normal, w))"

text \<open>
  The game loop, lines 150-198:
  \<open>for (let handIndex = 1; table.seats().filter(Boolean).length > 1; handIndex++)\<close>.
\<close>

fun gameLoop ::
  "'t Poker \<Rightarrow> Anthropic \<Rightarrow> ModelPlayer list \<Rightarrow> nat \<Rightarrow> nat \<Rightarrow> 't world \<Rightarrow> outcome \<times> 't world"
  where
  "gameLoop G anthropic players 0 handIndex w = (OutOfFuel, w)"
| "gameLoop G anthropic players (Suc n) handIndex w =
     (if length (filter occupied (seats G (table w))) > 1 then
        (let w1 = command StartHand (startHand G) w;
             w2 = logger (HandStart handIndex (seats G (table w1))) w1
         in case playHand G anthropic players n w2 of
              (Normal, w3) \<Rightarrow>
                gameLoop G anthropic players n (Suc handIndex)
                  (logger (HandEnd (seats G (table w3))) w3)
            | (out, w3) \<Rightarrow> (out, w3))
      else (Normal, w))"

text \<open>
  Lines 200-202: \<open>players[table.seats().findIndex(Boolean)].name\<close>. With no occupied seat
  the index is \<open>-1\<close> and the read of \<open>.name\<close> throws.
\<close>

definition gameEnd :: "'t Poker \<Rightarrow> ModelPlayer list \<Rightarrow> 't world \<Rightarrow> outcome \<times> 't world" where
  "gameEnd G players w =
     (case findIndex occupied (seats G (table w)) of
        None \<Rightarrow> (Threw TypeError, w)
      | Some i \<Rightarrow>
          (case lookup players i of
             None \<Rightarrow> (Threw TypeError, w)
           | Some winner \<Rightarrow> (Normal, logger (GameEnd (name winner)) w)))"

text \<open>
  The loading loop, lines 110-141. The directory listing and the two files of each
  directory are the input: one pair of parsed configuration and prompt text per
  directory. \<open>INITIAL_CHIPS\<close> is 1000.
\<close>

definition INITIAL_CHIPS :: number where
  "INITIAL_CHIPS = 1000"

fun loadPlayers ::
  "'t Poker \<Rightarrow> (string \<Rightarrow> TemplateData \<Rightarrow> string) \<Rightarrow> (PlayerConfig \<times> string) list \<Rightarrow>
     ModelPlayer list \<Rightarrow> 't world \<Rightarrow> (error + ModelPlayer list) \<times> 't world" where
  "loadPlayers G compile [] players w = (Inr players, w)"
| "loadPlayers G compile (dir # dirs) players w =
     (let player = \<lparr>name = cfg_name (fst dir), index = length players, prompt = snd dir,
                     model = cfg_model (fst dir), template = compile (snd dir)\<rparr>;
          players1 = players @ [player]
      in if length players1 > numSeats G then (Inl (TooManyPlayers (numSeats G)), w)
         else loadPlayers G compile dirs players1
                (command (SitDown (index player) INITIAL_CHIPS)
                   (sitDown G (index player) INITIAL_CHIPS) w))"

definition initial :: "'t \<Rightarrow> 't world" where
  "initial t = \<lparr>table = t, journal = [], stderr = [], calls = [], requests = 0\<rparr>"

text \<open>
  \<open>main\<close>, started on the freshly built table \<open>t\<close> with the roster empty. The environment
  variable holding the API key is taken as set (the program exits before \<open>main\<close>
  otherwise).
\<close>

definition main ::
  "'t Poker \<Rightarrow> (string \<Rightarrow> TemplateData \<Rightarrow> string) \<Rightarrow> Anthropic \<Rightarrow>
     (PlayerConfig \<times> string) list \<Rightarrow> nat \<Rightarrow> 't \<Rightarrow> outcome \<times> 't world" where
  "main G compile anthropic playerDirs fuel t =
     (case loadPlayers G compile playerDirs [] (initial t) of
        (Inl e, w) \<Rightarrow> (Threw e, w)
      | (Inr players, w) \<Rightarrow>
          (case gameLoop G anthropic players fuel 1
                  (logger (GameStart (seats G (table w))) w) of
             (Normal, w1) \<Rightarrow> gameEnd G players w1
           | (out, w1) \<Rightarrow> (out, w1)))"

section \<open>Reading the journal and the calls\<close>

text \<open>
  A journal entry and a command sent to the table belong to the same turn when the entry
  is a \<open>player_action\<close>, the command is \<open>actionTaken\<close>, and both carry the same action and bet
  size.
\<close>

fun applies :: "event \<Rightarrow> call \<Rightarrow> bool" where
  "applies (PlayerAction nm cards a b) (ActionTaken a' b') = (a = a' \<and> b = b')"
| "applies _ _ = False"

text \<open>The world after the first \<open>k\<close> passes through the body of the betting-round loop.\<close>

fun afterTurns ::
  "'t Poker \<Rightarrow> Anthropic \<Rightarrow> ModelPlayer list \<Rightarrow> nat \<Rightarrow> 't world \<Rightarrow> 't world" where
  "afterTurns G anthropic players 0 w = w"
| "afterTurns G anthropic players (Suc k) w =
     afterTurns G anthropic players k (snd (bettingTurn G anthropic players w))"

text \<open>The \<open>handIndex\<close> fields of the \<open>hand_start\<close> events of a journal, in order.\<close>

fun handIndices :: "event list \<Rightarrow> nat list" where
  "handIndices [] = []"
| "handIndices (HandStart handIndex ss # evs) = handIndex # handIndices evs"
| "handIndices (ev # evs) = handIndices evs"

text \<open>A seat that holds chips, in the words of the spec: an entry with \<open>totalChips > 0\<close>.\<close>

definition funded :: "Seat option \<Rightarrow> bool" where
  "funded s = (case s of None \<Rightarrow> False | Some seat \<Rightarrow> totalChips seat > 0)"

section \<open>A scripted table and scripted providers\<close>

record Scripted =
  sc_seats :: "Seat option list"
  sc_holeCards :: "Card list option list"
  sc_pots :: "Pot list"
  sc_legal :: LegalActions
  sc_toAct :: nat
  sc_hand :: bool
  sc_betting :: bool
  sc_completed :: bool

definition scripted :: "Scripted Poker" where
  "scripted =
     \<lparr>numSeats = 2,
      sitDown = (\<lambda>i chips t. t\<lparr>sc_seats := (sc_seats t)
                   [i := Some \<lparr>totalChips = chips, stack = chips, seat_betSize = 0\<rparr>]\<rparr>),
      seats = sc_seats,
      startHand = (\<lambda>t. t\<lparr>sc_hand := True, sc_betting := True\<rparr>),
      isHandInProgress = sc_hand,
      isBettingRoundInProgress = sc_betting,
      playerToAct = sc_toAct,
      legalActions = sc_legal,
      holeCards = sc_holeCards,
      actionTaken = (\<lambda>a b t. t\<lparr>sc_betting := False\<rparr>),
      endBettingRound = (\<lambda>t. t\<lparr>sc_completed := True\<rparr>),
      pots = sc_pots,
      communityCards = (\<lambda>t. []),
      areBettingRoundsCompleted = sc_completed,
      showdown = (\<lambda>t. t\<lparr>sc_hand := False,
                     sc_seats := [Some \<lparr>totalChips = 2000, stack = 2000, seat_betSize = 0\<rparr>,
                                  None]\<rparr>),
      winners = (\<lambda>t. []),
      roundOfBetting = (\<lambda>t. ''preflop'')\<rparr>"

definition offer :: LegalActions where
  "offer = \<lparr>actions = [Fold, Call, Raise], chipRange = Some \<lparr>cr_min = 100, cr_max = 900\<rparr>\<rparr>"

definition offerCheck :: LegalActions where
  "offerCheck = \<lparr>actions = [Check, Bet], chipRange = Some \<lparr>cr_min = 100, cr_max = 900\<rparr>\<rparr>"

definition offerCall :: LegalActions where
  "offerCall = \<lparr>actions = [Fold, Call], chipRange = None\<rparr>"

definition aliceCards :: "Card list" where
  "aliceCards = [\<lparr>rank = ''A'', suit = ''spades''\<rparr>, \<lparr>rank = ''K'', suit = ''spades''\<rparr>]"

definition bobCards :: "Card list" where
  "bobCards = [\<lparr>rank = ''2'', suit = ''clubs''\<rparr>, \<lparr>rank = ''7'', suit = ''hearts''\<rparr>]"

definition fresh :: Scripted where
  "fresh =
     \<lparr>sc_seats = [None, None],
      sc_holeCards = [Some aliceCards,
                      Some bobCards],
      sc_pots = [\<lparr>pot_size = 150, eligiblePlayers = [0, 1]\<rparr>],
      sc_legal = offer,
      sc_toAct = 0,
      sc_hand = False,
      sc_betting = False,
      sc_completed = False\<rparr>"

definition plain :: "string \<Rightarrow> TemplateData \<Rightarrow> string" where
  "plain text td = text"

definition alice :: ModelPlayer where
  "alice = \<lparr>name = ''Alice'', index = 0, prompt = ''play'', model = ''haiku'',
            template = plain ''play''\<rparr>"

definition bob :: ModelPlayer where
  "bob = \<lparr>name = ''Bob'', index = 1, prompt = ''play'', model = ''haiku'',
          template = plain ''play''\<rparr>"

definition offline :: Anthropic where
  "offline k r = Rejected ''connection refused''"

definition textBlock :: ContentBlock where
  "textBlock = \<lparr>cb_type = ''text'', cb_name = None, cb_input = None\<rparr>"

definition toolUse :: "json \<Rightarrow> ContentBlock" where
  "toolUse input = \<lparr>cb_type = ''tool_use'', cb_name = Some ''take_action'', cb_input = Some input\<rparr>"

definition answering :: "json \<Rightarrow> Anthropic" where
  "answering input k r = Message [textBlock, toolUse input]"

definition dealt :: Scripted where
  "dealt = fresh\<lparr>sc_seats := [Some \<lparr>totalChips = 1000, stack = 950, seat_betSize = 50\<rparr>,
                               Some \<lparr>totalChips = 1000, stack = 900, seat_betSize = 100\<rparr>],
                 sc_hand := True, sc_betting := True\<rparr>"

definition onlyCheck :: Scripted where
  "onlyCheck = dealt\<lparr>sc_legal := offerCheck\<rparr>"

definition dealtData :: TemplateData where
  "dealtData =
     \<lparr>td_player = \<lparr>pi_name = ''Alice'', pi_seatIndex = 0\<rparr>,
      td_currentHand =
        \<lparr>ch_holeCards = Some aliceCards,
         ch_communityCards = [],
         ch_pots = [\<lparr>pd_size = 150, pd_eligiblePlayers = [''Alice'', ''Bob'']\<rparr>],
         ch_legalActions = offer,
         ch_round = ''preflop''\<rparr>,
      td_playerStacks =
        [\<lparr>sd_name = ''Alice'', sd_status = ''active'', sd_totalChips = 1000,
          sd_stack = Some 950, sd_betSize = Some 50\<rparr>,
         \<lparr>sd_name = ''Bob'', sd_status = ''active'', sd_totalChips = 1000,
          sd_stack = Some 900, sd_betSize = Some 100\<rparr>]\<rparr>"

definition proposal :: "string \<Rightarrow> number \<Rightarrow> json" where
  "proposal a b = JObj [(''action'', JStr a), (''betSize'', JNum b)]"

definition bust :: Scripted where
  "bust = dealt\<lparr>sc_seats := [Some \<lparr>totalChips = 0, stack = 0, seat_betSize = 0\<rparr>,
                              Some \<lparr>totalChips = 2000, stack = 2000, seat_betSize = 0\<rparr>],
               sc_toAct := 1, sc_hand := False, sc_betting := False\<rparr>"

definition bustData :: TemplateData where
  "bustData =
     \<lparr>td_player = \<lparr>pi_name = ''Bob'', pi_seatIndex = 1\<rparr>,
      td_currentHand =
        \<lparr>ch_holeCards = Some bobCards,
         ch_communityCards = [],
         ch_pots = [\<lparr>pd_size = 150, pd_eligiblePlayers = [''Alice'', ''Bob'']\<rparr>],
         ch_legalActions = offer,
         ch_round = ''preflop''\<rparr>,
      td_playerStacks =
        [\<lparr>sd_name = ''Alice'', sd_status = ''active'', sd_totalChips = 0,
          sd_stack = Some 0, sd_betSize = Some 0\<rparr>,
         \<lparr>sd_name = ''Bob'', sd_status = ''active'', sd_totalChips = 2000,
          sd_stack = Some 2000, sd_betSize = Some 0\<rparr>]\<rparr>"

definition roster :: "(PlayerConfig \<times> string) list" where
  "roster = [(\<lparr>cfg_name = ''Alice'', cfg_model = ''haiku''\<rparr>, ''play''),
             (\<lparr>cfg_name = ''Bob'', cfg_model = ''haiku''\<rparr>, ''play'')]"

definition carol :: "PlayerConfig \<times> string" where
  "carol = (\<lparr>cfg_name = ''Carol'', cfg_model = ''haiku''\<rparr>, ''play'')"

definition won :: Scripted where
  "won = dealt\<lparr>sc_seats := [Some \<lparr>totalChips = 2000, stack = 2000, seat_betSize = 0\<rparr>, None]\<rparr>"

definition wonData :: TemplateData where
  "wonData = dealtData\<lparr>td_playerStacks :=
        [\<lparr>sd_name = ''Alice'', sd_status = ''active'', sd_totalChips = 2000,
          sd_stack = Some 2000, sd_betSize = Some 0\<rparr>,
         \<lparr>sd_name = ''Bob'', sd_status = ''eliminated'', sd_totalChips = 0,
          sd_stack = None, sd_betSize = None\<rparr>]\<rparr>"

definition peeked :: Scripted where
  "peeked = dealt\<lparr>sc_holeCards := [Some aliceCards, Some aliceCards]\<rparr>"

text \<open>
  A table on which a betting round has two turns: seat 0 acts, then seat 1, and the round
  is over. A provider that answers the first request with a call and cannot be reached
  afterwards.
\<close>

definition headsUp :: "Scripted Poker" where
  "headsUp = scripted\<lparr>actionTaken :=
     (\<lambda>a b t. t\<lparr>sc_toAct := Suc (sc_toAct t), sc_betting := (sc_toAct t = 0)\<rparr>)\<rparr>"

definition callsOnce :: Anthropic where
  "callsOnce k r =
     (if k = 0 then Message [toolUse (JObj [(''action'', JStr ''call'')])]
      else Rejected ''connection refused'')"


section \<open>Evaluating the scripted fixtures\<close>

lemmas scripted_simps = scripted_def fresh_def dealt_def won_def peeked_def bust_def aliceCards_def bobCards_def onlyCheck_def offerCheck_def offer_def alice_def bob_def plain_def
  answering_def proposal_def offline_def textBlock_def toolUse_def initial_def

lemmas snapshot_simps = createTemplateData_def potData_def lookup_def holeCardsAt_def
  playerStacks_def stackData_def enumerate_eq_zip

lemma dealt_snapshot:
  "createTemplateData scripted [alice, bob] (table (initial dealt)) alice = Inr dealtData"
  by (simp add: snapshot_simps scripted_simps dealtData_def)

section \<open>What validation accepts\<close>

lemma zod_enum_member: "zod_enum vs v = Inr a \<Longrightarrow> a \<in> set vs"
  by (cases "(vs, v)" rule: zod_enum.cases) (auto split: option.splits simp: find_Some_iff)

lemma zod_betSize_range:
  "zod_betSize r v = Inr (Some b) \<Longrightarrow> cr_min r \<le> b \<and> b \<le> cr_max r"
  by (cases "(r, v)" rule: zod_betSize.cases) (auto simp: Let_def split: if_splits)

lemma parse_accepts:
  "takenActionSchema_parse la v = Inr taken \<Longrightarrow>
     action taken \<in> set (actions la) \<and>
     (\<forall>b. betSize taken = Some b \<longrightarrow>
        (\<exists>r. chipRange la = Some r \<and> cr_min r \<le> b \<and> b \<le> cr_max r))"
  by (cases "(la, v)" rule: takenActionSchema_parse.cases)
     (auto split: option.splits sum.splits dest: zod_enum_member zod_betSize_range)

lemma callModel_Inr:
  "callModel anthropic k player hydrated la = Inr taken \<Longrightarrow>
     \<exists>v. takenActionSchema_parse la v = Inr taken"
  by (auto simp: callModel_def split: Reply.splits option.splits)

text \<open>
  Claim C2, as the spec states it: every accepted action is one of the offered actions,
  its bet size is present exactly when the action is \<open>bet\<close> or \<open>raise\<close> and then lies in the
  offered chip range, and a bet size supplied with another action is ignored rather than
  rejected. The schema does not look at the action when it checks \<open>betSize\<close>: with a chip
  range offered, a \<open>fold\<close> that carries a bet size inside the range is accepted with that bet
  size kept, and the same \<open>fold\<close> with a bet size outside the range is rejected.
\<close>

theorem betSize_not_tied_to_action:
  "callModel (answering (proposal ''fold'' 200)) 0 alice ''play'' offer =
     Inr \<lparr>action = Fold, betSize = Some 200\<rparr> \<and>
   callModel (answering (proposal ''fold'' 5000)) 0 alice ''play'' offer =
     Inl (ZodError [TooBig ''betSize''])"
  by (simp add: callModel_def isTakeAction_def issuesOf_def scripted_simps)

text \<open>
  Claim C2, amended: every action that validation accepts is one of the offered actions;
  a bet size is present in the accepted action only when a chip range was offered, and
  then lies within that range, whatever the action; and when no chip range is offered the
  result depends on the \<open>action\<close> key alone, so any supplied bet size is ignored rather than
  causing rejection.
\<close>

theorem validation_accepts:
  "(callModel anthropic k player hydrated la = Inr taken \<longrightarrow>
      action taken \<in> set (actions la) \<and>
      (\<forall>b. betSize taken = Some b \<longrightarrow>
         (\<exists>r. chipRange la = Some r \<and> cr_min r \<le> b \<and> b \<le> cr_max r))) \<and>
   (chipRange la = None \<longrightarrow> map_of kvs ''action'' = map_of kvs' ''action'' \<longrightarrow>
      takenActionSchema_parse la (Some (JObj kvs)) = takenActionSchema_parse la (Some (JObj kvs')))"
proof (intro conjI impI)
  assume "callModel anthropic k player hydrated la = Inr taken"
  then obtain v where v: "takenActionSchema_parse la v = Inr taken"
    using callModel_Inr by blast
  from parse_accepts [OF v] show "action taken \<in> set (actions la)" by simp
  from parse_accepts [OF v]
  show "\<forall>b. betSize taken = Some b \<longrightarrow>
         (\<exists>r. chipRange la = Some r \<and> cr_min r \<le> b \<and> b \<le> cr_max r)" by simp
next
  assume "chipRange la = None" "map_of kvs ''action'' = map_of kvs' ''action''"
  then show "takenActionSchema_parse la (Some (JObj kvs)) = takenActionSchema_parse la (Some (JObj kvs'))"
    by simp
qed

theorem validation_accepts_witness:
  "callModel (answering (proposal ''raise'' 300)) 0 alice ''play'' offer =
     Inr \<lparr>action = Raise, betSize = Some 300\<rparr> \<and>
   Raise \<in> set (actions offer) \<and>
   (\<exists>r. chipRange offer = Some r \<and> cr_min r \<le> 300 \<and> 300 \<le> cr_max r) \<and>
   chipRange offerCall = None \<and>
   takenActionSchema_parse offerCall (Some (proposal ''call'' 5000)) =
     takenActionSchema_parse offerCall (Some (JObj [(''action'', JStr ''call'')])) \<and>
   takenActionSchema_parse offerCall (Some (proposal ''call'' 5000)) =
     Inr \<lparr>action = Call, betSize = None\<rparr>"
proof -
  have accepted: "callModel (answering (proposal ''raise'' 300)) 0 alice ''play'' offer =
     Inr \<lparr>action = Raise, betSize = Some 300\<rparr>"
    by (simp add: callModel_def isTakeAction_def issuesOf_def scripted_simps)
  have absent: "chipRange offerCall = None"
    by (simp add: offerCall_def)
  have same: "map_of [(''action'', JStr ''call''), (''betSize'', JNum 5000)] ''action'' =
              map_of [(''action'', JStr ''call'')] ''action''"
    by simp
  have dropped: "takenActionSchema_parse offerCall (Some (proposal ''call'' 5000)) =
     Inr \<lparr>action = Call, betSize = None\<rparr>"
    by (simp add: offerCall_def proposal_def)
  from validation_accepts [where anthropic = "answering (proposal ''raise'' 300)" and k = 0
      and player = alice and hydrated = "''play''" and la = offer
      and taken = "\<lparr>action = Raise, betSize = Some 300\<rparr>"] accepted
  have "Raise \<in> set (actions offer) \<and>
     (\<exists>r. chipRange offer = Some r \<and> cr_min r \<le> 300 \<and> 300 \<le> cr_max r)"
    by simp
  moreover
  from validation_accepts [where la = offerCall
      and kvs = "[(''action'', JStr ''call''), (''betSize'', JNum 5000)]"
      and kvs' = "[(''action'', JStr ''call'')]"] absent same
  have "takenActionSchema_parse offerCall (Some (proposal ''call'' 5000)) =
     takenActionSchema_parse offerCall (Some (JObj [(''action'', JStr ''call'')]))"
    by (simp add: proposal_def)
  ultimately show ?thesis using accepted absent dropped by simp
qed

section \<open>The fallback of getModelAction\<close>

lemma zod_betSize_outside:
  "b < cr_min r \<or> cr_max r < b \<Longrightarrow> \<exists>issues. zod_betSize r (Some (JNum b)) = Inl issues \<and> issues \<noteq> []"
  by (auto simp: Let_def)

lemma parse_outside:
  assumes "chipRange la = Some r" "map_of kvs ''betSize'' = Some (JNum b)"
    "b < cr_min r \<or> cr_max r < b"
  shows "\<exists>issues. takenActionSchema_parse la (Some (JObj kvs)) = Inl (ZodError issues)"
proof -
  from zod_betSize_outside [OF assms(3)]
  obtain issues where "zod_betSize r (Some (JNum b)) = Inl issues" by blast
  with assms(1,2) show ?thesis
    by (cases "zod_enum (actions la) (map_of kvs ''action'')") simp_all
qed

lemma getModelAction_caught:
  assumes "createTemplateData G players (table w) player = Inr td"
    "callModel anthropic (requests w) player (template player td) (legalActions G (table w)) = Inl err"
  shows "getModelAction G anthropic players player w =
     (Inr \<lparr>action = Fold, betSize = None\<rparr>,
      w\<lparr>requests := Suc (requests w), stderr := stderr w @ [err]\<rparr>)"
  using assms by (simp add: getModelAction_def)

lemma getModelAction_returned:
  assumes "createTemplateData G players (table w) player = Inr td"
    "callModel anthropic (requests w) player (template player td) (legalActions G (table w)) = Inr taken"
  shows "getModelAction G anthropic players player w = (Inr taken, w\<lparr>requests := Suc (requests w)\<rparr>)"
  using assms by (simp add: getModelAction_def)

text \<open>
  Claim C4: when the model proposes a bet size outside the chip range that was offered,
  validation rejects the proposal (\<open>callModel\<close> throws a zod error) and \<open>getModelAction\<close>
  answers with the fallback, a fold without a bet size; the bet size is not clamped into
  the range.
\<close>

theorem out_of_range_bet_rejected:
  assumes "chipRange (legalActions G (table w)) = Some r"
    and "createTemplateData G players (table w) player = Inr td"
    and "anthropic (requests w) (request player (template player td) (legalActions G (table w)))
           = Message content"
    and "find isTakeAction content = Some block"
    and "cb_input block = Some (JObj kvs)"
    and "map_of kvs ''betSize'' = Some (JNum b)"
    and "b < cr_min r \<or> cr_max r < b"
  shows "(\<exists>issues. callModel anthropic (requests w) player (template player td)
                     (legalActions G (table w)) = Inl (ZodError issues)) \<and>
         fst (getModelAction G anthropic players player w) = Inr \<lparr>action = Fold, betSize = None\<rparr>"
proof -
  from parse_outside [OF assms(1) assms(6) assms(7)]
  obtain issues where
    "takenActionSchema_parse (legalActions G (table w)) (Some (JObj kvs)) = Inl (ZodError issues)"
    by blast
  with assms(3,4,5)
  have rejected: "callModel anthropic (requests w) player (template player td)
                    (legalActions G (table w)) = Inl (ZodError issues)"
    by (simp add: callModel_def)
  from getModelAction_caught [OF assms(2) rejected] rejected show ?thesis by simp
qed

theorem out_of_range_bet_rejected_witness:
  "callModel (answering (proposal ''raise'' 5000)) 0 alice ''play'' offer =
     Inl (ZodError [TooBig ''betSize'']) \<and>
   fst (getModelAction scripted (answering (proposal ''raise'' 5000)) [alice, bob] alice
          (initial dealt)) = Inr \<lparr>action = Fold, betSize = None\<rparr>"
proof -
  have h: "callModel (answering (proposal ''raise'' 5000)) 0 alice ''play'' offer =
     Inl (ZodError [TooBig ''betSize''])"
    by (simp add: callModel_def isTakeAction_def issuesOf_def scripted_simps)
  have "fst (getModelAction scripted (answering (proposal ''raise'' 5000)) [alice, bob] alice
          (initial dealt)) = Inr \<lparr>action = Fold, betSize = None\<rparr>"
    using out_of_range_bet_rejected [where G = scripted and w = "initial dealt"
        and r = "\<lparr>cr_min = 100, cr_max = 900\<rparr>" and players = "[alice, bob]" and player = alice
        and td = dealtData and anthropic = "answering (proposal ''raise'' 5000)"
        and content = "[textBlock, toolUse (proposal ''raise'' 5000)]"
        and block = "toolUse (proposal ''raise'' 5000)"
        and kvs = "[(''action'', JStr ''raise''), (''betSize'', JNum 5000)]" and b = 5000]
      dealt_snapshot
    by (simp add: isTakeAction_def scripted_simps)
  with h show ?thesis by simp
qed

lemma potData_error: "potData players pot = Inl e \<Longrightarrow> e = TypeError"
  by (auto simp: potData_def split: option.splits)

lemma potsData_error: "potsData players ps = Inl e \<Longrightarrow> e = TypeError"
  by (induction ps arbitrary: e) (auto split: sum.splits dest: potData_error)

lemma createTemplateData_error:
  "createTemplateData G players t player = Inl e \<Longrightarrow> e = TypeError"
  by (auto simp: createTemplateData_def split: sum.splits dest: potsData_error)

lemma bettingTurn_fallback:
  assumes "lookup players (playerToAct G (table w)) = Some player"
    and "createTemplateData G players (table w) player = Inr td"
    and "callModel anthropic (requests w) player (template player td) (legalActions G (table w)) = Inl err"
  shows "bettingTurn G anthropic players w =
     (Normal,
      w\<lparr>table := actionTaken G Fold None (table w),
        journal := journal w @
          [PlayerAction (name player)
             (holeCardsAt (holeCards G (table w)) (playerToAct G (table w))) Fold None],
        calls := calls w @ [ActionTaken Fold None],
        stderr := stderr w @ [err],
        requests := Suc (requests w)\<rparr>)"
  using assms(1) getModelAction_caught [OF assms(2,3)]
  by (simp add: bettingTurn_def Let_def command_def logger_def)

lemma bettingTurn_returned:
  assumes "lookup players (playerToAct G (table w)) = Some player"
    and "createTemplateData G players (table w) player = Inr td"
    and "callModel anthropic (requests w) player (template player td) (legalActions G (table w)) = Inr taken"
  shows "bettingTurn G anthropic players w =
     (Normal,
      w\<lparr>table := actionTaken G (action taken) (betSize taken) (table w),
        journal := journal w @
          [PlayerAction (name player)
             (holeCardsAt (holeCards G (table w)) (playerToAct G (table w)))
             (action taken) (betSize taken)],
        calls := calls w @ [ActionTaken (action taken) (betSize taken)],
        requests := Suc (requests w)\<rparr>)"
  using assms(1) getModelAction_returned [OF assms(2,3)]
  by (simp add: bettingTurn_def Let_def command_def logger_def)

text \<open>
  Claim C1, amended: on every turn on which the decision provider fails, whatever was
  thrown and whether or not \<open>fold\<close> is among the offered legal actions, the orchestrator
  substitutes \<open>fold\<close> without a bet size and proceeds as if it had been returned normally:
  one \<open>player_action\<close> event for the fold is journalled and the fold is applied to the
  table. The turn differs from a turn on which the provider deliberately answered with a
  fold only in the error printed to the console.
\<close>

theorem fallback_is_fold:
  assumes "lookup players (playerToAct G (table w)) = Some player"
    and "createTemplateData G players (table w) player = Inr td"
    and "callModel anthropic (requests w) player (template player td) (legalActions G (table w)) = Inl err"
  shows "bettingTurn G anthropic players w =
     (Normal,
      w\<lparr>table := actionTaken G Fold None (table w),
        journal := journal w @
          [PlayerAction (name player)
             (holeCardsAt (holeCards G (table w)) (playerToAct G (table w))) Fold None],
        calls := calls w @ [ActionTaken Fold None],
        stderr := stderr w @ [err],
        requests := Suc (requests w)\<rparr>) \<and>
    (\<forall>deliberate.
       callModel deliberate (requests w) player (template player td) (legalActions G (table w))
         = Inr \<lparr>action = Fold, betSize = None\<rparr> \<longrightarrow>
       bettingTurn G anthropic players w =
         (fst (bettingTurn G deliberate players w),
          (snd (bettingTurn G deliberate players w))\<lparr>stderr := stderr w @ [err]\<rparr>))"
proof (intro conjI allI impI)
  show "bettingTurn G anthropic players w =
     (Normal,
      w\<lparr>table := actionTaken G Fold None (table w),
        journal := journal w @
          [PlayerAction (name player)
             (holeCardsAt (holeCards G (table w)) (playerToAct G (table w))) Fold None],
        calls := calls w @ [ActionTaken Fold None],
        stderr := stderr w @ [err],
        requests := Suc (requests w)\<rparr>)"
    by (rule bettingTurn_fallback [OF assms])
next
  fix deliberate
  assume "callModel deliberate (requests w) player (template player td) (legalActions G (table w))
         = Inr \<lparr>action = Fold, betSize = None\<rparr>"
  from bettingTurn_returned [OF assms(1,2) this] bettingTurn_fallback [OF assms]
  show "bettingTurn G anthropic players w =
         (fst (bettingTurn G deliberate players w),
          (snd (bettingTurn G deliberate players w))\<lparr>stderr := stderr w @ [err]\<rparr>)"
    by simp
qed


text \<open>
  Claim C1, as the spec states it: on a provider failure the substituted action is \<open>fold\<close>
  when fold is offered and otherwise \<open>check\<close>. The catch block returns
  \<open>{ action: "fold" }\<close> without reading the legal actions: with only \<open>check\<close> and \<open>bet\<close>
  offered and the provider unreachable, the journalled and applied action is a fold.
\<close>

theorem fallback_folds_when_fold_not_offered:
  "actions (legalActions scripted (table (initial onlyCheck))) = [Check, Bet] \<and>
   journal (snd (bettingTurn scripted offline [alice, bob] (initial onlyCheck))) =
     [PlayerAction ''Alice'' (Some aliceCards) Fold None] \<and>
   calls (snd (bettingTurn scripted offline [alice, bob] (initial onlyCheck))) =
     [ActionTaken Fold None]"
  by (simp add: bettingTurn_def getModelAction_def callModel_def command_def logger_def
      snapshot_simps scripted_simps)

lemma offline_fails:
  "callModel offline k player hydrated la = Inl (TransportError ''connection refused'')"
  by (simp add: callModel_def offline_def)

lemma fold_answer:
  "callModel (answering (JObj [(''action'', JStr ''fold'')])) k player hydrated offer =
     Inr \<lparr>action = Fold, betSize = None\<rparr>"
  by (simp add: callModel_def isTakeAction_def issuesOf_def scripted_simps)

lemma dealt_legal: "legalActions scripted (table (initial dealt)) = offer"
  by (simp add: scripted_simps)

lemma dealt_actor: "lookup [alice, bob] (playerToAct scripted (table (initial dealt))) = Some alice"
  by (simp add: lookup_def scripted_simps)

theorem fallback_is_fold_witness:
  "bettingTurn scripted offline [alice, bob] (initial dealt) =
     (Normal,
      \<lparr>table = dealt\<lparr>sc_betting := False\<rparr>,
       journal = [PlayerAction ''Alice'' (Some aliceCards) Fold None],
       stderr = [TransportError ''connection refused''],
       calls = [ActionTaken Fold None],
       requests = 1\<rparr>) \<and>
   bettingTurn scripted offline [alice, bob] (initial dealt) =
     (fst (bettingTurn scripted (answering (JObj [(''action'', JStr ''fold'')])) [alice, bob]
             (initial dealt)),
      (snd (bettingTurn scripted (answering (JObj [(''action'', JStr ''fold'')])) [alice, bob]
              (initial dealt)))
        \<lparr>stderr := [TransportError ''connection refused'']\<rparr>)"
proof -
  have failing: "callModel offline (requests (initial dealt)) alice (template alice dealtData)
      (legalActions scripted (table (initial dealt))) = Inl (TransportError ''connection refused'')"
    by (rule offline_fails)
  have folding: "callModel (answering (JObj [(''action'', JStr ''fold'')])) (requests (initial dealt))
      alice (template alice dealtData) (legalActions scripted (table (initial dealt)))
      = Inr \<lparr>action = Fold, betSize = None\<rparr>"
    by (simp only: dealt_legal fold_answer)
  note main = fallback_is_fold [OF dealt_actor dealt_snapshot failing]
  from main have first: "bettingTurn scripted offline [alice, bob] (initial dealt) =
     (Normal,
      \<lparr>table = dealt\<lparr>sc_betting := False\<rparr>,
       journal = [PlayerAction ''Alice'' (Some aliceCards) Fold None],
       stderr = [TransportError ''connection refused''],
       calls = [ActionTaken Fold None],
       requests = 1\<rparr>)"
    by (simp add: holeCardsAt_def lookup_def scripted_simps)
  from main folding have second: "bettingTurn scripted offline [alice, bob] (initial dealt) =
     (fst (bettingTurn scripted (answering (JObj [(''action'', JStr ''fold'')])) [alice, bob]
             (initial dealt)),
      (snd (bettingTurn scripted (answering (JObj [(''action'', JStr ''fold'')])) [alice, bob]
              (initial dealt)))
        \<lparr>stderr := stderr (initial dealt) @ [TransportError ''connection refused'']\<rparr>)"
    by blast
  from first second show ?thesis by (simp add: initial_def)
qed

section \<open>What is printed for a failed decision\<close>

text \<open>
  Claim C6: a failed decision is printed (by \<open>console.error\<close>) as the error that was
  thrown, and the kind of that error tells the failures apart: a rejected request is a
  transport error, a response without a \<open>take_action\<close> tool-use block is the error of
  line 282, and a proposal that fails validation (malformed or illegal) is a zod error.
\<close>

theorem failures_logged_by_kind:
  assumes "createTemplateData G players (table w) player = Inr td"
    and "callModel anthropic (requests w) player (template player td) (legalActions G (table w)) = Inl err"
  shows "stderr (snd (getModelAction G anthropic players player w)) = stderr w @ [err] \<and>
     (case anthropic (requests w) (request player (template player td) (legalActions G (table w))) of
        Rejected msg \<Rightarrow> err = TransportError msg
      | Message content \<Rightarrow>
          (case find isTakeAction content of
             None \<Rightarrow> err = NoToolUse
           | Some block \<Rightarrow> (\<exists>issues. err = ZodError issues)))"
proof
  show "stderr (snd (getModelAction G anthropic players player w)) = stderr w @ [err]"
    using getModelAction_caught [OF assms] by simp
next
  have parse: "takenActionSchema_parse la v = Inl e \<Longrightarrow> \<exists>issues. e = ZodError issues" for la v e
    by (cases "(la, v)" rule: takenActionSchema_parse.cases)
       (auto split: option.splits sum.splits)
  from assms(2) show "case anthropic (requests w) (request player (template player td) (legalActions G (table w))) of
        Rejected msg \<Rightarrow> err = TransportError msg
      | Message content \<Rightarrow>
          (case find isTakeAction content of
             None \<Rightarrow> err = NoToolUse
           | Some block \<Rightarrow> (\<exists>issues. err = ZodError issues))"
    by (auto simp: callModel_def split: Reply.splits option.splits dest: parse)
qed

theorem failures_logged_by_kind_witness:
  "stderr (snd (getModelAction scripted offline [alice, bob] alice (initial dealt))) =
     [TransportError ''connection refused''] \<and>
   stderr (snd (getModelAction scripted (answering (proposal ''raise'' 5000)) [alice, bob] alice
                  (initial dealt))) = [ZodError [TooBig ''betSize'']] \<and>
   stderr (snd (getModelAction scripted (answering (JObj [(''action'', JNum 1)])) [alice, bob] alice
                  (initial dealt))) = [ZodError [InvalidType ''action'']]"
proof -
  have a: "callModel offline (requests (initial dealt)) alice (template alice dealtData)
      (legalActions scripted (table (initial dealt))) = Inl (TransportError ''connection refused'')"
    by (rule offline_fails)
  have b: "callModel (answering (proposal ''raise'' 5000)) (requests (initial dealt)) alice
      (template alice dealtData) (legalActions scripted (table (initial dealt)))
      = Inl (ZodError [TooBig ''betSize''])"
    by (simp add: callModel_def isTakeAction_def issuesOf_def scripted_simps)
  have c: "callModel (answering (JObj [(''action'', JNum 1)])) (requests (initial dealt)) alice
      (template alice dealtData) (legalActions scripted (table (initial dealt)))
      = Inl (ZodError [InvalidType ''action''])"
    by (simp add: callModel_def isTakeAction_def issuesOf_def scripted_simps)
  from failures_logged_by_kind [OF dealt_snapshot a] failures_logged_by_kind [OF dealt_snapshot b]
    failures_logged_by_kind [OF dealt_snapshot c]
  show ?thesis by (simp add: initial_def)
qed

section \<open>The betting-round loop\<close>

lemma bettingTurn_acts:
  assumes "lookup players (playerToAct G (table w)) = Some player"
    and "createTemplateData G players (table w) player = Inr td"
  shows "\<exists>nm cards a b w1. bettingTurn G anthropic players w = (Normal, w1) \<and>
     journal w1 = journal w @ [PlayerAction nm cards a b] \<and>
     calls w1 = calls w @ [ActionTaken a b]"
proof (cases "callModel anthropic (requests w) player (template player td)
                (legalActions G (table w))")
  case (Inl err)
  from bettingTurn_fallback [OF assms Inl] show ?thesis by simp
next
  case (Inr taken)
  from bettingTurn_returned [OF assms Inr] show ?thesis by simp
qed

lemma bettingTurn_cases:
  obtains (threw) "bettingTurn G anthropic players w = (Threw TypeError, w)"
      "\<forall>player. lookup players (playerToAct G (table w)) = Some player \<longrightarrow>
         createTemplateData G players (table w) player = Inl TypeError"
  | (acted) nm cards a b w1 where "bettingTurn G anthropic players w = (Normal, w1)"
      "journal w1 = journal w @ [PlayerAction nm cards a b]"
      "calls w1 = calls w @ [ActionTaken a b]"
proof (cases "lookup players (playerToAct G (table w))")
  case None
  then have "bettingTurn G anthropic players w = (Threw TypeError, w)"
    by (simp add: bettingTurn_def Let_def)
  with None threw show ?thesis by simp
next
  case (Some player)
  show ?thesis
  proof (cases "createTemplateData G players (table w) player")
    case (Inl e)
    then have e: "e = TypeError" by (rule createTemplateData_error)
    with Inl Some have "bettingTurn G anthropic players w = (Threw TypeError, w)"
      by (simp add: bettingTurn_def getModelAction_def Let_def)
    with Inl e Some threw show ?thesis by simp
  next
    case (Inr td)
    from bettingTurn_acts [OF Some Inr] obtain nm cards a b w1 where
      "bettingTurn G anthropic players w = (Normal, w1)"
      "journal w1 = journal w @ [PlayerAction nm cards a b]"
      "calls w1 = calls w @ [ActionTaken a b]"
      by blast
    then show ?thesis by (rule acted)
  qed
qed

lemma bettingTurn_exact:
  assumes "lookup players (playerToAct G (table w)) = Some player"
    and "createTemplateData G players (table w) player = Inr td"
  shows "\<exists>taken logged.
     (callModel anthropic (requests w) player (template player td) (legalActions G (table w))
        = Inr taken \<and> logged = [] \<or>
      callModel anthropic (requests w) player (template player td) (legalActions G (table w))
        = Inl (hd logged) \<and> length logged = 1 \<and> taken = \<lparr>action = Fold, betSize = None\<rparr>) \<and>
     bettingTurn G anthropic players w =
       (Normal,
        w\<lparr>table := actionTaken G (action taken) (betSize taken) (table w),
          journal := journal w @
            [PlayerAction (name player)
               (holeCardsAt (holeCards G (table w)) (playerToAct G (table w)))
               (action taken) (betSize taken)],
          calls := calls w @ [ActionTaken (action taken) (betSize taken)],
          stderr := stderr w @ logged,
          requests := Suc (requests w)\<rparr>)"
proof (cases "callModel anthropic (requests w) player (template player td)
                (legalActions G (table w))")
  case (Inl err)
  from bettingTurn_fallback [OF assms Inl] Inl show ?thesis
    by (intro exI [of _ "\<lparr>action = Fold, betSize = None\<rparr>"] exI [of _ "[err]"]) simp
next
  case (Inr taken)
  from bettingTurn_returned [OF assms Inr] Inr show ?thesis
    by (intro exI [of _ taken] exI [of _ "[]"]) simp
qed

text \<open>
  Claim C3. A turn whose acting seat and pot indices name players of the roster ends
  normally whatever the provider does, with exactly one taken action (the provider's
  accepted answer, or the fallback when \<open>callModel\<close> throws): one \<open>player_action\<close> entry is
  journalled for it and \<open>actionTaken\<close> is sent to the table once, with that action and bet
  size. The betting-round loop takes some number \<open>k\<close> of turns: each of them is taken in a
  state where the table reports the round in progress and ends normally, the world
  afterwards is the one after exactly these \<open>k\<close> turns, and the journal and the calls have
  grown by \<open>k\<close> entries each, paired off in order with the same action and bet size. The
  loop leaves normally only when the table reports the round over, runs out of fuel only
  after as many turns as it had fuel, and otherwise leaves with the \<open>TypeError\<close> of a seat
  or pot index that names no player of the roster, thrown before the provider is asked:
  no turn is skipped and nothing a decision provider throws leaves the loop.
\<close>

theorem one_action_per_turn:
  "(lookup players (playerToAct G (table w)) = Some player \<longrightarrow>
    createTemplateData G players (table w) player = Inr td \<longrightarrow>
      (\<exists>taken logged.
         (callModel anthropic (requests w) player (template player td) (legalActions G (table w))
            = Inr taken \<and> logged = [] \<or>
          callModel anthropic (requests w) player (template player td) (legalActions G (table w))
            = Inl (hd logged) \<and> length logged = 1 \<and>
            taken = \<lparr>action = Fold, betSize = None\<rparr>) \<and>
         bettingTurn G anthropic players w =
           (Normal,
            w\<lparr>table := actionTaken G (action taken) (betSize taken) (table w),
              journal := journal w @
                [PlayerAction (name player)
                   (holeCardsAt (holeCards G (table w)) (playerToAct G (table w)))
                   (action taken) (betSize taken)],
              calls := calls w @ [ActionTaken (action taken) (betSize taken)],
              stderr := stderr w @ logged,
              requests := Suc (requests w)\<rparr>))) \<and>
   (\<exists>k evs cs.
      k \<le> n \<and>
      snd (bettingRound G anthropic players n w) = afterTurns G anthropic players k w \<and>
      (\<forall>i < k. isBettingRoundInProgress G (table (afterTurns G anthropic players i w)) \<and>
               fst (bettingTurn G anthropic players (afterTurns G anthropic players i w)) = Normal) \<and>
      length evs = k \<and> length cs = k \<and>
      journal (snd (bettingRound G anthropic players n w)) = journal w @ evs \<and>
      calls (snd (bettingRound G anthropic players n w)) = calls w @ cs \<and>
      list_all2 applies evs cs \<and>
      (fst (bettingRound G anthropic players n w) = Normal \<and>
         \<not> isBettingRoundInProgress G (table (snd (bettingRound G anthropic players n w))) \<or>
       fst (bettingRound G anthropic players n w) = OutOfFuel \<and> k = n \<or>
       fst (bettingRound G anthropic players n w) = Threw TypeError \<and>
         isBettingRoundInProgress G (table (snd (bettingRound G anthropic players n w))) \<and>
         (\<forall>player.
            lookup players (playerToAct G (table (snd (bettingRound G anthropic players n w))))
              = Some player \<longrightarrow>
            createTemplateData G players (table (snd (bettingRound G anthropic players n w))) player
              = Inl TypeError)))"
proof (intro conjI impI)
  assume "lookup players (playerToAct G (table w)) = Some player"
    and "createTemplateData G players (table w) player = Inr td"
  then show "\<exists>taken logged.
         (callModel anthropic (requests w) player (template player td) (legalActions G (table w))
            = Inr taken \<and> logged = [] \<or>
          callModel anthropic (requests w) player (template player td) (legalActions G (table w))
            = Inl (hd logged) \<and> length logged = 1 \<and>
            taken = \<lparr>action = Fold, betSize = None\<rparr>) \<and>
         bettingTurn G anthropic players w =
           (Normal,
            w\<lparr>table := actionTaken G (action taken) (betSize taken) (table w),
              journal := journal w @
                [PlayerAction (name player)
                   (holeCardsAt (holeCards G (table w)) (playerToAct G (table w)))
                   (action taken) (betSize taken)],
              calls := calls w @ [ActionTaken (action taken) (betSize taken)],
              stderr := stderr w @ logged,
              requests := Suc (requests w)\<rparr>)"
    by (rule bettingTurn_exact)
next
  show "\<exists>k evs cs.
      k \<le> n \<and>
      snd (bettingRound G anthropic players n w) = afterTurns G anthropic players k w \<and>
      (\<forall>i < k. isBettingRoundInProgress G (table (afterTurns G anthropic players i w)) \<and>
               fst (bettingTurn G anthropic players (afterTurns G anthropic players i w)) = Normal) \<and>
      length evs = k \<and> length cs = k \<and>
      journal (snd (bettingRound G anthropic players n w)) = journal w @ evs \<and>
      calls (snd (bettingRound G anthropic players n w)) = calls w @ cs \<and>
      list_all2 applies evs cs \<and>
      (fst (bettingRound G anthropic players n w) = Normal \<and>
         \<not> isBettingRoundInProgress G (table (snd (bettingRound G anthropic players n w))) \<or>
       fst (bettingRound G anthropic players n w) = OutOfFuel \<and> k = n \<or>
       fst (bettingRound G anthropic players n w) = Threw TypeError \<and>
         isBettingRoundInProgress G (table (snd (bettingRound G anthropic players n w))) \<and>
         (\<forall>player.
            lookup players (playerToAct G (table (snd (bettingRound G anthropic players n w))))
              = Some player \<longrightarrow>
            createTemplateData G players (table (snd (bettingRound G anthropic players n w))) player
              = Inl TypeError))"
  proof (induction n arbitrary: w)
    case 0
    show ?case by (intro exI [of _ 0] exI [of _ "[]"]) simp
  next
    case (Suc n)
    show ?case
    proof (cases "isBettingRoundInProgress G (table w)")
      case False
      then show ?thesis by (intro exI [of _ 0] exI [of _ "[]"]) simp
    next
      case True
      show ?thesis
      proof (cases rule: bettingTurn_cases [of G anthropic players w])
        case threw
        with True show ?thesis by (intro exI [of _ 0] exI [of _ "[]"]) simp
      next
        case (acted nm cards a b w1)
        have step: "bettingRound G anthropic players (Suc n) w = bettingRound G anthropic players n w1"
          using True acted(1) by simp
        have turns: "afterTurns G anthropic players (Suc i) w = afterTurns G anthropic players i w1" for i
          using acted(1) by simp
        from Suc.IH [of w1] obtain k evs cs where
          k: "k \<le> n"
          and final: "snd (bettingRound G anthropic players n w1) = afterTurns G anthropic players k w1"
          and each: "\<forall>i < k. isBettingRoundInProgress G (table (afterTurns G anthropic players i w1)) \<and>
               fst (bettingTurn G anthropic players (afterTurns G anthropic players i w1)) = Normal"
          and len: "length evs = k" "length cs = k"
          and rest: "journal (snd (bettingRound G anthropic players n w1)) = journal w1 @ evs"
            "calls (snd (bettingRound G anthropic players n w1)) = calls w1 @ cs"
            "list_all2 applies evs cs"
          and out: "fst (bettingRound G anthropic players n w1) = Normal \<and>
              \<not> isBettingRoundInProgress G (table (snd (bettingRound G anthropic players n w1))) \<or>
            fst (bettingRound G anthropic players n w1) = OutOfFuel \<and> k = n \<or>
            fst (bettingRound G anthropic players n w1) = Threw TypeError \<and>
              isBettingRoundInProgress G (table (snd (bettingRound G anthropic players n w1))) \<and>
              (\<forall>player.
                 lookup players (playerToAct G (table (snd (bettingRound G anthropic players n w1))))
                   = Some player \<longrightarrow>
                 createTemplateData G players (table (snd (bettingRound G anthropic players n w1))) player
                   = Inl TypeError)"
          by blast
        have every: "\<forall>i < Suc k. isBettingRoundInProgress G (table (afterTurns G anthropic players i w)) \<and>
               fst (bettingTurn G anthropic players (afterTurns G anthropic players i w)) = Normal"
        proof (intro allI impI)
          fix i assume "i < Suc k"
          show "isBettingRoundInProgress G (table (afterTurns G anthropic players i w)) \<and>
               fst (bettingTurn G anthropic players (afterTurns G anthropic players i w)) = Normal"
          proof (cases i)
            case 0
            with True acted(1) show ?thesis by simp
          next
            case (Suc j)
            with \<open>i < Suc k\<close> each show ?thesis by (simp add: turns del: afterTurns.simps)
          qed
        qed
        have "Suc k \<le> Suc n" using k by simp
        moreover have "snd (bettingRound G anthropic players (Suc n) w) =
                       afterTurns G anthropic players (Suc k) w"
          unfolding step turns by (rule final)
        moreover note every
        moreover have "length (PlayerAction nm cards a b # evs) = Suc k"
          "length (ActionTaken a b # cs) = Suc k"
          using len by simp_all
        moreover have "journal (snd (bettingRound G anthropic players (Suc n) w)) =
                journal w @ (PlayerAction nm cards a b # evs)"
          unfolding step using rest(1) acted(2) by simp
        moreover have "calls (snd (bettingRound G anthropic players (Suc n) w)) =
                calls w @ (ActionTaken a b # cs)"
          unfolding step using rest(2) acted(3) by simp
        moreover have "list_all2 applies (PlayerAction nm cards a b # evs) (ActionTaken a b # cs)"
          using rest(3) by simp
        moreover have "fst (bettingRound G anthropic players (Suc n) w) = Normal \<and>
              \<not> isBettingRoundInProgress G (table (snd (bettingRound G anthropic players (Suc n) w))) \<or>
            fst (bettingRound G anthropic players (Suc n) w) = OutOfFuel \<and> Suc k = Suc n \<or>
            fst (bettingRound G anthropic players (Suc n) w) = Threw TypeError \<and>
              isBettingRoundInProgress G (table (snd (bettingRound G anthropic players (Suc n) w))) \<and>
              (\<forall>player.
                 lookup players (playerToAct G (table (snd (bettingRound G anthropic players (Suc n) w))))
                   = Some player \<longrightarrow>
                 createTemplateData G players (table (snd (bettingRound G anthropic players (Suc n) w))) player
                   = Inl TypeError)"
          unfolding step using out by simp
        ultimately show ?thesis
          by (intro exI [of _ "Suc k"] exI [of _ "PlayerAction nm cards a b # evs"]
                exI [of _ "ActionTaken a b # cs"]) (intro conjI)
      qed
    qed
  qed
qed



lemma headsUp_round:
  "bettingRound headsUp callsOnce [alice, bob] 3 (initial dealt) =
     (Normal,
      \<lparr>table = dealt\<lparr>sc_toAct := 2, sc_betting := False\<rparr>,
       journal = [PlayerAction ''Alice'' (Some aliceCards) Call None,
                  PlayerAction ''Bob'' (Some bobCards) Fold None],
       stderr = [TransportError ''connection refused''],
       calls = [ActionTaken Call None, ActionTaken Fold None],
       requests = 2\<rparr>)"
  by (simp add: bettingTurn_def getModelAction_def callModel_def command_def logger_def
      isTakeAction_def headsUp_def callsOnce_def snapshot_simps scripted_simps eval_nat_numeral)

lemma headsUp_cut_short:
  "bettingRound headsUp callsOnce [alice, bob] 1 (initial dealt) =
     (OutOfFuel,
      \<lparr>table = dealt\<lparr>sc_toAct := 1, sc_betting := True\<rparr>,
       journal = [PlayerAction ''Alice'' (Some aliceCards) Call None],
       stderr = [],
       calls = [ActionTaken Call None],
       requests = 1\<rparr>)"
  by (simp add: bettingTurn_def getModelAction_def callModel_def command_def logger_def
      isTakeAction_def headsUp_def callsOnce_def snapshot_simps scripted_simps)

theorem one_action_per_turn_witness:
  "fst (bettingRound headsUp callsOnce [alice, bob] 3 (initial dealt)) = Normal \<and>
   journal (snd (bettingRound headsUp callsOnce [alice, bob] 3 (initial dealt))) =
     [PlayerAction ''Alice'' (Some aliceCards) Call None,
      PlayerAction ''Bob'' (Some bobCards) Fold None] \<and>
   calls (snd (bettingRound headsUp callsOnce [alice, bob] 3 (initial dealt))) =
     [ActionTaken Call None, ActionTaken Fold None] \<and>
   \<not> isBettingRoundInProgress headsUp
       (table (snd (bettingRound headsUp callsOnce [alice, bob] 3 (initial dealt)))) \<and>
   fst (bettingRound headsUp callsOnce [alice, bob] 1 (initial dealt)) = OutOfFuel \<and>
   calls (snd (bettingRound headsUp callsOnce [alice, bob] 1 (initial dealt))) =
     [ActionTaken Call None] \<and>
   lookup [alice, bob] (playerToAct headsUp (table (initial dealt))) = Some alice \<and>
   createTemplateData headsUp [alice, bob] (table (initial dealt)) alice = Inr dealtData \<and>
   calls (snd (bettingTurn headsUp callsOnce [alice, bob] (initial dealt))) = [ActionTaken Call None]"
proof -
  have actor: "lookup [alice, bob] (playerToAct headsUp (table (initial dealt))) = Some alice"
    by (simp add: lookup_def headsUp_def scripted_simps)
  have built: "createTemplateData headsUp [alice, bob] (table (initial dealt)) alice = Inr dealtData"
    by (simp add: snapshot_simps headsUp_def scripted_simps dealtData_def)
  have answer: "callModel callsOnce (requests (initial dealt)) alice (template alice dealtData)
      (legalActions headsUp (table (initial dealt))) = Inr \<lparr>action = Call, betSize = None\<rparr>"
    by (simp add: callModel_def isTakeAction_def callsOnce_def headsUp_def scripted_simps)
  note inst = one_action_per_turn [where G = headsUp and anthropic = callsOnce
      and players = "[alice, bob]" and n = 3 and w = "initial dealt" and player = alice
      and td = dealtData]
  from inst actor built answer
  have turn: "calls (snd (bettingTurn headsUp callsOnce [alice, bob] (initial dealt))) =
      [ActionTaken Call None]"
    by (auto simp: initial_def)
  from inst
  have over: "\<not> isBettingRoundInProgress headsUp
       (table (snd (bettingRound headsUp callsOnce [alice, bob] 3 (initial dealt))))"
    by (auto simp: headsUp_round)
  from actor built turn over show ?thesis
    unfolding headsUp_round headsUp_cut_short by simp
qed

section \<open>The snapshot\<close>

lemma playerStacks_length:
  "length (playerStacks players ss) = min (length players) (length ss)"
  by (simp add: playerStacks_def min.commute)

lemma playerStacks_nth:
  assumes "i < length players" "i < length ss"
  shows "playerStacks players ss ! i = stackData players (i, ss ! i)"
  using assms by (simp add: playerStacks_def nth_enumerate_eq)

lemma createTemplateData_stacks:
  "createTemplateData G players t player = Inr td \<Longrightarrow>
     td_playerStacks td = playerStacks players (seats G t)"
  by (auto simp: createTemplateData_def split: sum.splits)

text \<open>
  Claim C7, amended: the snapshot has one stack entry for each seat of the table that a
  player of the roster sits at; an empty seat (a \<open>null\<close> entry of the seat list) is
  rendered with status "eliminated" and zero chips, and every seat entry the table lists
  is rendered "active" with its live total, stack and bet, whatever its chips.
\<close>

theorem seat_status:
  assumes "createTemplateData G players t player = Inr td"
  shows "length (td_playerStacks td) = min (length players) (length (seats G t)) \<and>
    (\<forall>i. i < length players \<and> i < length (seats G t) \<longrightarrow>
       td_playerStacks td ! i =
         (case seats G t ! i of
            None \<Rightarrow>
              \<lparr>sd_name = name (players ! i), sd_status = ''eliminated'', sd_totalChips = 0,
               sd_stack = None, sd_betSize = None\<rparr>
          | Some seat \<Rightarrow>
              \<lparr>sd_name = name (players ! i), sd_status = ''active'',
               sd_totalChips = totalChips seat, sd_stack = Some (stack seat),
               sd_betSize = Some (seat_betSize seat)\<rparr>))"
  unfolding createTemplateData_stacks [OF assms]
  by (simp add: playerStacks_length playerStacks_nth stackData_def split: option.splits)

text \<open>
  Claim C7, as the spec states it: a seat with no chips is rendered "eliminated" even if
  the table still lists it as a seat entry. The status is decided by the entry being
  \<open>null\<close> or not: a listed seat with zero chips is rendered "active".
\<close>

theorem zero_chip_seat_is_active:
  "createTemplateData scripted [alice, bob] bust bob = Inr bustData \<and>
   seats scripted bust ! 0 = Some \<lparr>totalChips = 0, stack = 0, seat_betSize = 0\<rparr> \<and>
   td_playerStacks bustData ! 0 =
     \<lparr>sd_name = ''Alice'', sd_status = ''active'', sd_totalChips = 0,
      sd_stack = Some 0, sd_betSize = Some 0\<rparr>"
  by (simp add: snapshot_simps scripted_simps bustData_def)

text \<open>
  Claim C9: the template data built for a player holds the hole cards at the player's own
  seat index and no others: two table states that agree on everything else the snapshot
  reads and on the hole cards at that index give the same template data, however the
  hole cards of the other seats differ.
\<close>

theorem own_hole_cards_only:
  assumes "holeCardsAt (holeCards G t) (index player) = holeCardsAt (holeCards G t') (index player)"
    and "seats G t = seats G t'"
    and "pots G t = pots G t'"
    and "communityCards G t = communityCards G t'"
    and "legalActions G t = legalActions G t'"
    and "roundOfBetting G t = roundOfBetting G t'"
  shows "createTemplateData G players t player = createTemplateData G players t' player \<and>
    (\<forall>td. createTemplateData G players t player = Inr td \<longrightarrow>
       ch_holeCards (td_currentHand td) = holeCardsAt (holeCards G t) (index player))"
  using assms by (auto simp: createTemplateData_def split: sum.splits)


theorem seat_status_witness:
  "createTemplateData scripted [alice, bob] won alice = Inr wonData \<and>
   length (td_playerStacks wonData) = 2 \<and>
   td_playerStacks wonData ! 0 =
     \<lparr>sd_name = ''Alice'', sd_status = ''active'', sd_totalChips = 2000,
      sd_stack = Some 2000, sd_betSize = Some 0\<rparr> \<and>
   td_playerStacks wonData ! 1 =
     \<lparr>sd_name = ''Bob'', sd_status = ''eliminated'', sd_totalChips = 0,
      sd_stack = None, sd_betSize = None\<rparr>"
proof -
  have built: "createTemplateData scripted [alice, bob] won alice = Inr wonData"
    by (simp add: snapshot_simps scripted_simps won_def wonData_def dealtData_def)
  from seat_status [OF built] have
    "td_playerStacks wonData ! 0 =
       (case seats scripted won ! 0 of
          None \<Rightarrow> \<lparr>sd_name = name ([alice, bob] ! 0), sd_status = ''eliminated'',
                    sd_totalChips = 0, sd_stack = None, sd_betSize = None\<rparr>
        | Some seat \<Rightarrow> \<lparr>sd_name = name ([alice, bob] ! 0), sd_status = ''active'',
                    sd_totalChips = totalChips seat, sd_stack = Some (stack seat),
                    sd_betSize = Some (seat_betSize seat)\<rparr>)"
    "td_playerStacks wonData ! 1 =
       (case seats scripted won ! 1 of
          None \<Rightarrow> \<lparr>sd_name = name ([alice, bob] ! 1), sd_status = ''eliminated'',
                    sd_totalChips = 0, sd_stack = None, sd_betSize = None\<rparr>
        | Some seat \<Rightarrow> \<lparr>sd_name = name ([alice, bob] ! 1), sd_status = ''active'',
                    sd_totalChips = totalChips seat, sd_stack = Some (stack seat),
                    sd_betSize = Some (seat_betSize seat)\<rparr>)"
    "length (td_playerStacks wonData) = min (length [alice, bob]) (length (seats scripted won))"
    by (simp_all add: scripted_simps won_def)
  with built show ?thesis
    by (simp add: scripted_simps won_def)
qed

theorem own_hole_cards_only_witness:
  "holeCards scripted peeked \<noteq> holeCards scripted dealt \<and>
   createTemplateData scripted [alice, bob] dealt alice =
     createTemplateData scripted [alice, bob] peeked alice \<and>
   createTemplateData scripted [alice, bob] dealt alice = Inr dealtData \<and>
   ch_holeCards (td_currentHand dealtData) = Some aliceCards"
proof -
  have built: "createTemplateData scripted [alice, bob] dealt alice = Inr dealtData"
    using dealt_snapshot by (simp add: initial_def)
  have differ: "holeCards scripted peeked \<noteq> holeCards scripted dealt"
    by (simp add: scripted_simps peeked_def)
  from own_hole_cards_only [where G = scripted and t = dealt and t' = peeked and player = alice
      and players = "[alice, bob]"] built
  have "createTemplateData scripted [alice, bob] dealt alice =
          createTemplateData scripted [alice, bob] peeked alice \<and>
        ch_holeCards (td_currentHand dealtData) = holeCardsAt (holeCards scripted dealt) (index alice)"
    by (simp add: holeCardsAt_def lookup_def scripted_simps peeked_def)
  with built differ show ?thesis
    by (simp add: holeCardsAt_def lookup_def scripted_simps)
qed

section \<open>Loading the roster\<close>

lemma loadPlayers_too_many:
  assumes "length players \<le> numSeats G" "numSeats G < length players + length dirs"
  shows "fst (loadPlayers G compile dirs players w) = Inl (TooManyPlayers (numSeats G)) \<and>
    journal (snd (loadPlayers G compile dirs players w)) = journal w \<and>
    stderr (snd (loadPlayers G compile dirs players w)) = stderr w \<and>
    requests (snd (loadPlayers G compile dirs players w)) = requests w \<and>
    calls (snd (loadPlayers G compile dirs players w)) =
      calls w @ map (\<lambda>i. SitDown i INITIAL_CHIPS) [length players ..< numSeats G]"
  using assms
proof (induction dirs arbitrary: players w)
  case Nil
  then show ?case by simp
next
  case (Cons dir dirs)
  show ?case
  proof (cases "numSeats G < Suc (length players)")
    case True
    with Cons.prems have "length players = numSeats G" by simp
    with True show ?thesis by (simp add: Let_def)
  next
    case False
    let ?player = "\<lparr>name = cfg_name (fst dir), index = length players, prompt = snd dir,
                     model = cfg_model (fst dir), template = compile (snd dir)\<rparr>"
    let ?w1 = "command (SitDown (length players) INITIAL_CHIPS)
                 (sitDown G (length players) INITIAL_CHIPS) w"
    have step: "loadPlayers G compile (dir # dirs) players w =
                loadPlayers G compile dirs (players @ [?player]) ?w1"
      using False by (simp add: Let_def)
    from False Cons.prems
    have "length (players @ [?player]) \<le> numSeats G"
      "numSeats G < length (players @ [?player]) + length dirs"
      by simp_all
    from Cons.IH [OF this, of ?w1] False
    show ?thesis unfolding step
      by (simp add: command_def upt_conv_Cons)
  qed
qed

text \<open>
  Claim C8: when the roster has more players than the table has seats, \<open>main\<close> throws
  the error of line 136 while it loads the players: nothing has been journalled (no
  \<open>game_start\<close>), the only commands the table has received seat the first players, so no
  hand was started, and no decision was requested.
\<close>

theorem too_many_players_is_fatal:
  assumes "numSeats G < length playerDirs"
  shows "fst (main G compile anthropic playerDirs fuel t) = Threw (TooManyPlayers (numSeats G)) \<and>
    journal (snd (main G compile anthropic playerDirs fuel t)) = [] \<and>
    calls (snd (main G compile anthropic playerDirs fuel t)) =
      map (\<lambda>i. SitDown i INITIAL_CHIPS) [0 ..< numSeats G] \<and>
    requests (snd (main G compile anthropic playerDirs fuel t)) = 0"
proof -
  from assms have "numSeats G < length ([] :: ModelPlayer list) + length playerDirs" by simp
  from loadPlayers_too_many [OF _ this, of compile "initial t"]
  show ?thesis
    by (cases "loadPlayers G compile playerDirs [] (initial t)")
       (auto simp: main_def initial_def)
qed

theorem too_many_players_is_fatal_witness:
  "numSeats scripted < length (roster @ [carol]) \<and>
   fst (main scripted plain offline (roster @ [carol]) 5 fresh) = Threw (TooManyPlayers 2) \<and>
   journal (snd (main scripted plain offline (roster @ [carol]) 5 fresh)) = [] \<and>
   calls (snd (main scripted plain offline (roster @ [carol]) 5 fresh)) =
     [SitDown 0 1000, SitDown 1 1000]"
proof -
  have more: "numSeats scripted < length (roster @ [carol])"
    by (simp add: scripted_def roster_def)
  have seated: "map (\<lambda>i. SitDown i INITIAL_CHIPS) [0 ..< numSeats scripted] =
                [SitDown 0 1000, SitDown 1 1000]"
    by (simp add: scripted_def INITIAL_CHIPS_def upt_rec)
  from too_many_players_is_fatal [OF more, of plain offline 5 fresh] more seated
  show ?thesis by (simp add: scripted_def)
qed

section \<open>Hands\<close>

lemma handIndices_append: "handIndices (xs @ ys) = handIndices xs @ handIndices ys"
  by (induction xs rule: handIndices.induct) simp_all

text \<open>
  A step that neither journals a \<open>hand_start\<close> nor sends \<open>startHand\<close> to the table.
\<close>

lemma bettingTurn_hands:
  "handIndices (journal (snd (bettingTurn G anthropic players w))) = handIndices (journal w) \<and>
   count_list (calls (snd (bettingTurn G anthropic players w))) StartHand =
     count_list (calls w) StartHand"
  by (cases rule: bettingTurn_cases [of G anthropic players w])
     (simp_all add: handIndices_append)

lemma bettingRound_hands:
  "handIndices (journal (snd (bettingRound G anthropic players n w))) = handIndices (journal w) \<and>
   count_list (calls (snd (bettingRound G anthropic players n w))) StartHand =
     count_list (calls w) StartHand"
proof (induction n arbitrary: w)
  case 0
  show ?case by simp
next
  case (Suc n)
  show ?case
  proof (cases "bettingTurn G anthropic players w")
    case (Pair out w1)
    with bettingTurn_hands [of G anthropic players w]
    have w1: "handIndices (journal w1) = handIndices (journal w)"
      "count_list (calls w1) StartHand = count_list (calls w) StartHand"
      by simp_all
    show ?thesis
      using Pair w1 Suc.IH [of w1] by (cases out) simp_all
  qed
qed

lemma settleRound_hands:
  "handIndices (journal (settleRound G w)) = handIndices (journal w) \<and>
   count_list (calls (settleRound G w)) StartHand = count_list (calls w) StartHand"
  by (simp add: settleRound_def Let_def command_def logger_def handIndices_append)

lemma playHand_hands:
  "handIndices (journal (snd (playHand G anthropic players n w))) = handIndices (journal w) \<and>
   count_list (calls (snd (playHand G anthropic players n w))) StartHand =
     count_list (calls w) StartHand"
proof (induction n arbitrary: w)
  case 0
  show ?case by simp
next
  case (Suc n)
  show ?case
  proof (cases "bettingRound G anthropic players n w")
    case (Pair out w1)
    with bettingRound_hands [of G anthropic players n w]
    have w1: "handIndices (journal w1) = handIndices (journal w)"
      "count_list (calls w1) StartHand = count_list (calls w) StartHand"
      by simp_all
    show ?thesis
      using Pair w1 Suc.IH [of "settleRound G w1"] settleRound_hands [of G w1]
      by (cases out) simp_all
  qed
qed

lemma gameLoop_hands:
  "\<exists>k. handIndices (journal (snd (gameLoop G anthropic players n handIndex w))) =
          handIndices (journal w) @ [handIndex ..< handIndex + k] \<and>
        count_list (calls (snd (gameLoop G anthropic players n handIndex w))) StartHand =
          count_list (calls w) StartHand + k"
proof (induction n arbitrary: handIndex w)
  case 0
  show ?case by simp
next
  case (Suc n)
  show ?case
  proof (cases "1 < length (filter occupied (seats G (table w)))")
    case False
    then show ?thesis by simp
  next
    case True
    let ?w1 = "command StartHand (startHand G) w"
    let ?w2 = "logger (HandStart handIndex (seats G (table ?w1))) ?w1"
    have w2: "handIndices (journal ?w2) = handIndices (journal w) @ [handIndex]"
      "count_list (calls ?w2) StartHand = count_list (calls w) StartHand + 1"
      by (simp_all add: command_def logger_def handIndices_append)
    show ?thesis
    proof (cases "playHand G anthropic players n ?w2")
      case (Pair out w3)
      with playHand_hands [of G anthropic players n ?w2] w2
      have w3: "handIndices (journal w3) = handIndices (journal w) @ [handIndex]"
        "count_list (calls w3) StartHand = count_list (calls w) StartHand + 1"
        by simp_all
      show ?thesis
      proof (cases "out = Normal")
        case False
        with True Pair have "gameLoop G anthropic players (Suc n) handIndex w = (out, w3)"
          by (cases out) (simp_all add: Let_def)
        with w3 have "handIndices (journal (snd (gameLoop G anthropic players (Suc n) handIndex w))) =
            handIndices (journal w) @ [handIndex ..< handIndex + 1] \<and>
          count_list (calls (snd (gameLoop G anthropic players (Suc n) handIndex w))) StartHand =
            count_list (calls w) StartHand + 1"
          by simp
        then show ?thesis by blast
      next
        case Normal: True
        let ?w4 = "logger (HandEnd (seats G (table w3))) w3"
        have w4: "handIndices (journal ?w4) = handIndices (journal w) @ [handIndex]"
          "count_list (calls ?w4) StartHand = count_list (calls w) StartHand + 1"
          using w3 by (simp_all add: logger_def handIndices_append)
        from True Pair Normal
        have step: "gameLoop G anthropic players (Suc n) handIndex w =
                    gameLoop G anthropic players n (Suc handIndex) ?w4"
          by (simp add: Let_def)
        from Suc.IH [of "Suc handIndex" ?w4] obtain k where
          "handIndices (journal (snd (gameLoop G anthropic players n (Suc handIndex) ?w4))) =
             handIndices (journal ?w4) @ [Suc handIndex ..< Suc handIndex + k]"
          "count_list (calls (snd (gameLoop G anthropic players n (Suc handIndex) ?w4))) StartHand =
             count_list (calls ?w4) StartHand + k"
          by blast
        with w4 have "handIndices (journal (snd (gameLoop G anthropic players (Suc n) handIndex w))) =
            handIndices (journal w) @ [handIndex ..< handIndex + Suc k] \<and>
          count_list (calls (snd (gameLoop G anthropic players (Suc n) handIndex w))) StartHand =
            count_list (calls w) StartHand + Suc k"
          unfolding step by (simp add: upt_conv_Cons)
        then show ?thesis by blast
      qed
    qed
  qed
qed

lemma gameEnd_hands:
  "handIndices (journal (snd (gameEnd G players w))) = handIndices (journal w) \<and>
   count_list (calls (snd (gameEnd G players w))) StartHand = count_list (calls w) StartHand"
  by (simp add: gameEnd_def logger_def handIndices_append split: option.splits)

lemma loadPlayers_hands:
  "journal (snd (loadPlayers G compile dirs players w)) = journal w \<and>
   count_list (calls (snd (loadPlayers G compile dirs players w))) StartHand =
     count_list (calls w) StartHand"
  by (induction dirs arbitrary: players w) (simp_all add: Let_def command_def)

lemma scripted_game:
  "main scripted plain offline roster 4 fresh =
     (Normal,
      \<lparr>table = fresh\<lparr>sc_seats := [Some \<lparr>totalChips = 2000, stack = 2000, seat_betSize = 0\<rparr>, None],
                      sc_completed := True\<rparr>,
       journal =
         [GameStart [Some \<lparr>totalChips = 1000, stack = 1000, seat_betSize = 0\<rparr>,
                     Some \<lparr>totalChips = 1000, stack = 1000, seat_betSize = 0\<rparr>],
          HandStart 1 [Some \<lparr>totalChips = 1000, stack = 1000, seat_betSize = 0\<rparr>,
                       Some \<lparr>totalChips = 1000, stack = 1000, seat_betSize = 0\<rparr>],
          PlayerAction ''Alice'' (Some aliceCards) Fold None,
          EndBettingRound [\<lparr>pot_size = 150, eligiblePlayers = [0, 1]\<rparr>] [],
          Showdown [],
          HandEnd [Some \<lparr>totalChips = 2000, stack = 2000, seat_betSize = 0\<rparr>, None],
          GameEnd ''Alice''],
       stderr = [TransportError ''connection refused''],
       calls = [SitDown 0 1000, SitDown 1 1000, StartHand, ActionTaken Fold None,
                EndBettingRoundCall, ShowdownCall],
       requests = 1\<rparr>)"
  by (simp add: main_def gameEnd_def settleRound_def bettingTurn_def getModelAction_def
      callModel_def command_def logger_def occupied_def roster_def INITIAL_CHIPS_def Let_def
      snapshot_simps scripted_simps eval_nat_numeral)

text \<open>
  Claim C10: every \<open>hand_start\<close> event carries a \<open>handIndex\<close>; in the journal of a run, as
  far as it got, these indices are 1, 2, ..., k in order, where k is the number of times
  \<open>startHand\<close> was sent to the table: the first hand has index 1, each later hand one more
  than the hand before, and no hand was started without its event.
\<close>

theorem hands_are_numbered:
  "handIndices (journal (snd (main G compile anthropic playerDirs fuel t))) =
     [1 ..< Suc (count_list (calls (snd (main G compile anthropic playerDirs fuel t))) StartHand)]"
proof (cases "loadPlayers G compile playerDirs [] (initial t)")
  case (Pair loaded w)
  with loadPlayers_hands [of G compile playerDirs "[]" "initial t"]
  have w: "journal w = []" "count_list (calls w) StartHand = 0"
    by (simp_all add: initial_def)
  show ?thesis
  proof (cases loaded)
    case (Inl e)
    with Pair w show ?thesis by (simp add: main_def)
  next
    case (Inr players)
    let ?w0 = "logger (GameStart (seats G (table w))) w"
    have w0: "handIndices (journal ?w0) = []" "count_list (calls ?w0) StartHand = 0"
      using w by (simp_all add: logger_def)
    from gameLoop_hands [of G anthropic players fuel 1 ?w0] w0 obtain k where
      k: "handIndices (journal (snd (gameLoop G anthropic players fuel 1 ?w0))) = [1 ..< 1 + k]"
        "count_list (calls (snd (gameLoop G anthropic players fuel 1 ?w0))) StartHand = k"
      by auto
    show ?thesis
    proof (cases "gameLoop G anthropic players fuel 1 ?w0")
      case loop: (Pair out w1)
      with k have w1: "handIndices (journal w1) = [1 ..< 1 + k]"
        "count_list (calls w1) StartHand = k"
        by simp_all
      show ?thesis
        using Pair Inr loop w1 gameEnd_hands [of G players w1]
        by (cases out) (simp_all add: main_def)
    qed
  qed
qed

theorem hands_are_numbered_witness:
  "handIndices (journal (snd (main scripted plain offline roster 4 fresh))) = [1] \<and>
   count_list (calls (snd (main scripted plain offline roster 4 fresh))) StartHand = 1 \<and>
   fst (main scripted plain offline roster 4 fresh) = Normal"
proof -
  have run: "main scripted plain offline roster 4 fresh =
     (Normal,
      \<lparr>table = fresh\<lparr>sc_seats := [Some \<lparr>totalChips = 2000, stack = 2000, seat_betSize = 0\<rparr>, None],
                      sc_completed := True\<rparr>,
       journal =
         [GameStart [Some \<lparr>totalChips = 1000, stack = 1000, seat_betSize = 0\<rparr>,
                     Some \<lparr>totalChips = 1000, stack = 1000, seat_betSize = 0\<rparr>],
          HandStart 1 [Some \<lparr>totalChips = 1000, stack = 1000, seat_betSize = 0\<rparr>,
                       Some \<lparr>totalChips = 1000, stack = 1000, seat_betSize = 0\<rparr>],
          PlayerAction ''Alice'' (Some aliceCards) Fold None,
          EndBettingRound [\<lparr>pot_size = 150, eligiblePlayers = [0, 1]\<rparr>] [],
          Showdown [],
          HandEnd [Some \<lparr>totalChips = 2000, stack = 2000, seat_betSize = 0\<rparr>, None],
          GameEnd ''Alice''],
       stderr = [TransportError ''connection refused''],
       calls = [SitDown 0 1000, SitDown 1 1000, StartHand, ActionTaken Fold None,
                EndBettingRoundCall, ShowdownCall],
       requests = 1\<rparr>)"
    by (rule scripted_game)
  from hands_are_numbered [of scripted plain offline roster 4 fresh]
  show ?thesis unfolding run by simp
qed

section \<open>The end of the game\<close>

lemma gameLoop_idle:
  "length (filter occupied (seats G (table w))) \<le> 1 \<Longrightarrow>
     snd (gameLoop G anthropic players n handIndex w) = w"
  by (cases n) simp_all

lemma gameLoop_stops:
  "fst (gameLoop G anthropic players n handIndex w) = Normal \<Longrightarrow>
     length (filter occupied (seats G (table (snd (gameLoop G anthropic players n handIndex w)))))
       \<le> 1"
proof (induction n arbitrary: handIndex w)
  case 0
  then show ?case by simp
next
  case (Suc n)
  show ?case
  proof (cases "1 < length (filter occupied (seats G (table w)))")
    case False
    then show ?thesis by simp
  next
    case True
    let ?w2 = "logger (HandStart handIndex (seats G (table (command StartHand (startHand G) w))))
                 (command StartHand (startHand G) w)"
    show ?thesis
    proof (cases "playHand G anthropic players n ?w2")
      case (Pair out w3)
      show ?thesis
      proof (cases "out = Normal")
        case False
        with True Pair have "gameLoop G anthropic players (Suc n) handIndex w = (out, w3)"
          by (cases out) (simp_all add: Let_def)
        with Suc.prems False show ?thesis by simp
      next
        case Normal: True
        from True Pair Normal
        have step: "gameLoop G anthropic players (Suc n) handIndex w =
                    gameLoop G anthropic players n (Suc handIndex)
                      (logger (HandEnd (seats G (table w3))) w3)"
          by (simp add: Let_def)
        from Suc.prems Suc.IH show ?thesis unfolding step by blast
      qed
    qed
  qed
qed

lemma findIndex_Some: "findIndex P xs = Some i \<Longrightarrow> i < length xs \<and> P (xs ! i)"
  by (induction xs arbitrary: i) (auto split: if_splits)

lemma findIndex_filter: "findIndex P xs = Some i \<Longrightarrow> 1 \<le> length (filter P xs)"
proof -
  assume "findIndex P xs = Some i"
  then have "xs ! i \<in> set (filter P xs)"
    using findIndex_Some [of P xs i] by simp
  then have "filter P xs \<noteq> []" by (metis empty_iff list.set(1))
  then show ?thesis by (cases "filter P xs") simp_all
qed

lemma gameEnd_Normal:
  assumes "fst (gameEnd G players w) = Normal"
  shows "\<exists>i p. findIndex occupied (seats G (table w)) = Some i \<and> lookup players i = Some p \<and>
           snd (gameEnd G players w) = logger (GameEnd (name p)) w"
  using assms by (auto simp: gameEnd_def split: option.splits)

lemma loadPlayers_names:
  "fst (loadPlayers G compile dirs players w) = Inr loaded \<Longrightarrow>
     map name loaded = map name players @ map (\<lambda>dir. cfg_name (fst dir)) dirs"
proof (induction dirs arbitrary: players w)
  case Nil
  then show ?case by simp
next
  case (Cons dir dirs)
  then show ?case
    by (cases "numSeats G < Suc (length players)") (auto simp: Let_def)
qed

lemma lookup_loaded:
  assumes "fst (loadPlayers G compile dirs [] w) = Inr loaded" "lookup loaded i = Some p"
  shows "i < length dirs \<and> name p = cfg_name (fst (dirs ! i))"
proof -
  from loadPlayers_names [OF assms(1)]
  have names: "map name loaded = map (\<lambda>dir. cfg_name (fst dir)) dirs" by simp
  then have len: "length loaded = length dirs" by (metis length_map)
  from assms(2) have i: "i < length loaded" "p = loaded ! i"
    by (auto simp: lookup_def split: if_splits)
  from i(1) have "name (loaded ! i) = map name loaded ! i" by simp
  also have "\<dots> = cfg_name (fst (dirs ! i))" using i(1) len by (simp add: names)
  finally show ?thesis using i len by simp
qed

text \<open>
  Claim C5, amended: the game loop starts a new hand only while strictly more than one
  seat is occupied (a seat entry that is not \<open>null\<close>, whatever its chips): with at most
  one occupied seat the loop does nothing. When \<open>main\<close> returns normally, exactly one
  occupied seat remains, it is the first occupied seat by position, and the last event
  of the journal is \<open>game_end\<close> naming the player that was loaded for that seat.
\<close>

theorem game_ends_with_one_occupied_seat:
  "(length (filter occupied (seats G (table w))) \<le> 1 \<longrightarrow>
      snd (gameLoop G anthropic players n handIndex w) = w) \<and>
   (fst (main G compile anthropic playerDirs fuel t) = Normal \<longrightarrow>
      length (filter occupied
        (seats G (table (snd (main G compile anthropic playerDirs fuel t))))) = 1 \<and>
      (\<exists>i < length playerDirs.
         findIndex occupied (seats G (table (snd (main G compile anthropic playerDirs fuel t))))
           = Some i \<and>
         last (journal (snd (main G compile anthropic playerDirs fuel t))) =
           GameEnd (cfg_name (fst (playerDirs ! i)))))"
proof (intro conjI impI)
  assume "length (filter occupied (seats G (table w))) \<le> 1"
  then show "snd (gameLoop G anthropic players n handIndex w) = w"
    by (rule gameLoop_idle)
next
  assume normal: "fst (main G compile anthropic playerDirs fuel t) = Normal"
  obtain loaded w0 where load: "loadPlayers G compile playerDirs [] (initial t) = (loaded, w0)"
    by (cases "loadPlayers G compile playerDirs [] (initial t)")
  from normal load obtain roster where roster: "loaded = Inr roster"
    by (cases loaded) (simp_all add: main_def)
  let ?start = "logger (GameStart (seats G (table w0))) w0"
  obtain out w1 where loop: "gameLoop G anthropic roster fuel 1 ?start = (out, w1)"
    by (cases "gameLoop G anthropic roster fuel 1 ?start")
  from normal load roster loop have out: "out = Normal"
    by (cases out) (simp_all add: main_def)
  with load roster loop have run: "main G compile anthropic playerDirs fuel t = gameEnd G roster w1"
    by (simp add: main_def)
  from gameLoop_stops [of G anthropic roster fuel 1 ?start] loop out
  have few: "length (filter occupied (seats G (table w1))) \<le> 1" by simp
  from normal run have "fst (gameEnd G roster w1) = Normal" by simp
  from gameEnd_Normal [OF this] obtain i p where
    i: "findIndex occupied (seats G (table w1)) = Some i" and p: "lookup roster i = Some p"
    and final: "snd (gameEnd G roster w1) = logger (GameEnd (name p)) w1"
    by blast
  from load roster have "fst (loadPlayers G compile playerDirs [] (initial t)) = Inr roster" by simp
  from lookup_loaded [OF this p]
  have named: "i < length playerDirs" "name p = cfg_name (fst (playerDirs ! i))" by simp_all
  from findIndex_filter [OF i] few
  have one: "length (filter occupied (seats G (table w1))) = 1" by simp
  have same: "table (snd (main G compile anthropic playerDirs fuel t)) = table w1"
    "last (journal (snd (main G compile anthropic playerDirs fuel t))) = GameEnd (name p)"
    unfolding run final by (simp_all add: logger_def)
  from one same show "length (filter occupied
        (seats G (table (snd (main G compile anthropic playerDirs fuel t))))) = 1"
    by simp
  from i named same
  show "\<exists>i < length playerDirs.
         findIndex occupied (seats G (table (snd (main G compile anthropic playerDirs fuel t))))
           = Some i \<and>
         last (journal (snd (main G compile anthropic playerDirs fuel t))) =
           GameEnd (cfg_name (fst (playerDirs ! i)))"
    by auto
qed

text \<open>
  Claim C5, as the spec states it: a new hand is started only while strictly more than one
  seat holds chips. The loop condition counts the seat entries that are not \<open>null\<close>: with
  two listed seats of which one has zero chips, a single seat is funded and a hand is
  started all the same.
\<close>

theorem hand_started_with_one_funded_seat:
  "length (filter funded (seats scripted (table (initial bust)))) = 1 \<and>
   calls (snd (gameLoop scripted offline [alice, bob] (Suc 0) 1 (initial bust))) = [StartHand] \<and>
   journal (snd (gameLoop scripted offline [alice, bob] (Suc 0) 1 (initial bust))) =
     [HandStart 1 [Some \<lparr>totalChips = 0, stack = 0, seat_betSize = 0\<rparr>,
                   Some \<lparr>totalChips = 2000, stack = 2000, seat_betSize = 0\<rparr>]]"
  by (simp add: funded_def occupied_def command_def logger_def Let_def scripted_simps)

theorem game_ends_with_one_occupied_seat_witness:
  "fst (main scripted plain offline roster 4 fresh) = Normal \<and>
   length (filter occupied (seats scripted (table (snd (main scripted plain offline roster 4 fresh)))))
     = 1 \<and>
   findIndex occupied (seats scripted (table (snd (main scripted plain offline roster 4 fresh))))
     = Some 0 \<and>
   last (journal (snd (main scripted plain offline roster 4 fresh))) = GameEnd ''Alice'' \<and>
   length (filter occupied (seats scripted (table (initial won)))) \<le> 1 \<and>
   snd (gameLoop scripted offline [alice, bob] 3 1 (initial won)) = initial won"
proof -
  have normal: "fst (main scripted plain offline roster 4 fresh) = Normal"
    by (simp add: scripted_game)
  have few: "length (filter occupied (seats scripted (table (initial won)))) \<le> 1"
    by (simp add: occupied_def scripted_simps)
  note inst = game_ends_with_one_occupied_seat [where G = scripted and compile = plain
      and anthropic = offline and playerDirs = roster and fuel = 4 and t = fresh
      and w = "initial won" and players = "[alice, bob]" and n = 3 and handIndex = 1]
  from inst few have idle: "snd (gameLoop scripted offline [alice, bob] 3 1 (initial won)) = initial won"
    by blast
  from inst normal
  have one: "length (filter occupied
      (seats scripted (table (snd (main scripted plain offline roster 4 fresh))))) = 1"
    by blast
  have first: "findIndex occupied
      (seats scripted (table (snd (main scripted plain offline roster 4 fresh)))) = Some 0"
    unfolding scripted_game by (simp add: occupied_def scripted_def fresh_def)
  have last: "last (journal (snd (main scripted plain offline roster 4 fresh))) = GameEnd ''Alice''"
    unfolding scripted_game by simp
  from normal few idle one first last show ?thesis by blast
qed

end
